theory Spec2Isabelle
  imports Complex_Main "HOL-Library.AList"
begin

section \<open>Emergency response simulation: data model\<close>

text \<open>
  A shallow embedding of the simulation and dispatch engine of the repository
  (\<^verbatim>\<open>vehicle_simulation.py\<close>, \<^verbatim>\<open>vehicle_controller.py\<close>, \<^verbatim>\<open>api.py\<close>,
  \<^verbatim>\<open>data_processing.py\<close>).

  Conventions of the embedding:
  \<^item> Python floats are modelled as \<^typ>\<open>real\<close>: \<^verbatim>\<open>(dx**2 + dy**2)**0.5\<close> is
    \<open>sqrt (dx\<^sup>2 + dy\<^sup>2)\<close>. Rounding, overflow and NaN of IEEE arithmetic are not
    modelled.
  \<^item> The status strings \<^verbatim>\<open>"idle"\<close>, \<^verbatim>\<open>"responding"\<close>, \<^verbatim>\<open>"returning"\<close>,
    \<^verbatim>\<open>"handling"\<close>, \<^verbatim>\<open>"patrolling"\<close> are the only values ever assigned to
    \<^verbatim>\<open>status\<close>; they are the constructors of a datatype.
  \<^item> The three subclasses of \<^verbatim>\<open>EmergencyVehicle\<close> are a tag \<open>kind\<close>;
    \<^verbatim>\<open>isinstance(v, PoliceCar)\<close> is \<open>kind v = PoliceCar\<close>.
  \<^item> A method that mutates its object returns the exception raised, if any, together
    with the object as the method left it.
  \<^item> \<^verbatim>\<open>datetime.now()\<close> is an argument \<open>now\<close>; threads, locks and file
    writes are not modelled.
\<close>

type_synonym point = "real \<times> real"

datatype error =
    KeyError
  | IndexError
  | TypeError
  | ZeroDivisionError
  | AttributeError
  | ValueError string
  | NetworkXError
  | NetworkXNoPath
  | HTTPException nat

type_synonym 'a outcome = "error option \<times> 'a"

datatype vehicle_kind = FireTruck | Ambulance | PoliceCar

fun vehicle_type_of :: "vehicle_kind \<Rightarrow> string" where
  "vehicle_type_of FireTruck = ''fire_truck''"
| "vehicle_type_of Ambulance = ''ambulance''"
| "vehicle_type_of PoliceCar = ''police_car''"

datatype status = Idle | Responding | Returning | Handling | Patrolling

subsection \<open>The road graph as the simulation reads it\<close>

record node_attrs =
  node_x :: real
  node_y :: real
  node_type :: string

record edge_attrs =
  road_id :: int
  edge_length :: real
  speed :: real
  travel_time :: real
  geometry :: "point list"

text \<open>
  A \<^verbatim>\<open>networkx.DiGraph\<close>: nodes and edges are dictionaries in insertion order, so
  both are association lists. A node that was only ever named by \<^verbatim>\<open>add_edge\<close> has no
  attributes (\<open>None\<close>).
\<close>

record road_graph =
  nodes :: "(string \<times> node_attrs option) list"
  edges :: "((string \<times> string) \<times> edge_attrs) list"

text \<open>\<^verbatim>\<open>data = graph.nodes[node]; (data['x'], data['y'])\<close>: a \<^verbatim>\<open>KeyError\<close> when the
  node or its coordinates are missing.\<close>

definition node_position :: "road_graph \<Rightarrow> string \<Rightarrow> error + point" where
  "node_position g n =
     (case map_of (nodes g) n of
        None \<Rightarrow> Inl KeyError
      | Some None \<Rightarrow> Inl KeyError
      | Some (Some a) \<Rightarrow> Inr (node_x a, node_y a))"

text \<open>The loop of \<^verbatim>\<open>_update_route_geometry\<close> and \<^verbatim>\<open>_update_patrol_geometry\<close>:
  the list built so far is kept when a lookup raises.\<close>

fun geometry_of_nodes :: "road_graph \<Rightarrow> string list \<Rightarrow> point list \<Rightarrow> point list outcome" where
  "geometry_of_nodes g [] acc = (None, acc)"
| "geometry_of_nodes g (n # ns) acc =
     (case node_position g n of
        Inl e \<Rightarrow> (Some e, acc)
      | Inr p \<Rightarrow> geometry_of_nodes g ns (acc @ [p]))"

subsection \<open>Vehicles\<close>

record vehicle =
  vehicle_id :: string
  kind :: vehicle_kind
  facility_id :: int
  facility_name :: string
  facility_location :: point
  status :: status
  current_location :: point
  destination :: "point option"
  route_nodes :: "string list"
  route_geometry :: "point list"
  route_index :: nat
  last_updated :: nat
  max_speed :: real
  current_speed :: real
  handling_start_time :: "real option"
  handling_duration :: "real option"
  patrol_nodes :: "string list"
  patrol_geometry :: "point list"
  patrol_index :: nat
  patrol_speed :: real

text \<open>The patrol fields exist on a \<^verbatim>\<open>PoliceCar\<close> only; the code reads them only
  after \<^verbatim>\<open>isinstance(vehicle, PoliceCar)\<close>. \<open>handling_start_time\<close> and
  \<open>handling_duration\<close> are attributes created on arrival (\<open>None\<close> before).\<close>

definition vehicle_type :: "vehicle \<Rightarrow> string" where
  "vehicle_type v = vehicle_type_of (kind v)"

definition new_vehicle :: "string \<Rightarrow> vehicle_kind \<Rightarrow> int \<Rightarrow> string \<Rightarrow> point \<Rightarrow> nat \<Rightarrow> vehicle" where
  "new_vehicle vid k fid fname floc now =
     \<lparr> vehicle_id = vid, kind = k, facility_id = fid, facility_name = fname,
       facility_location = floc, status = Idle, current_location = floc,
       destination = None, route_nodes = [], route_geometry = [], route_index = 0,
       last_updated = now,
       max_speed = (case k of FireTruck \<Rightarrow> 80 | Ambulance \<Rightarrow> 90 | PoliceCar \<Rightarrow> 120),
       current_speed = 0, handling_start_time = None, handling_duration = None,
       patrol_nodes = [], patrol_geometry = [], patrol_index = 0, patrol_speed = 40 \<rparr>"

definition update_route_geometry :: "vehicle \<Rightarrow> road_graph \<Rightarrow> vehicle outcome" where
  "update_route_geometry v g =
     (case geometry_of_nodes g (route_nodes v) [] of
        (e, geom) \<Rightarrow> (e, v\<lparr>route_geometry := geom\<rparr>))"

definition start_response :: "vehicle \<Rightarrow> point \<Rightarrow> string list \<Rightarrow> road_graph \<Rightarrow> vehicle outcome" where
  "start_response v dest route g =
     update_route_geometry
       (v\<lparr>status := Responding, destination := Some dest, route_nodes := route,
          route_index := 0, current_speed := max_speed v\<rparr>) g"

definition return_to_facility :: "vehicle \<Rightarrow> string list \<Rightarrow> road_graph \<Rightarrow> vehicle outcome" where
  "return_to_facility v route g =
     update_route_geometry
       (v\<lparr>status := Returning, destination := Some (facility_location v),
          route_nodes := route, route_index := 0,
          current_speed := max_speed v * 0.7\<rparr>) g"

definition arrive_at_facility :: "vehicle \<Rightarrow> vehicle" where
  "arrive_at_facility v =
     v\<lparr>status := Idle, current_location := facility_location v, destination := None,
       route_nodes := [], route_geometry := [], current_speed := 0\<rparr>"

definition arrive_at_destination :: "vehicle \<Rightarrow> real \<Rightarrow> vehicle" where
  "arrive_at_destination v current_simulated_time =
     (if status v = Responding then
        v\<lparr>status := Handling, handling_start_time := Some current_simulated_time,
          handling_duration := Some 600, current_speed := 0,
          route_nodes := [], route_geometry := []\<rparr>
      else if status v = Returning then arrive_at_facility v
      else v)"

text \<open>
  \<^verbatim>\<open>update_movement\<close>. The early call \<^verbatim>\<open>self.arrive_at_destination()\<close> (cursor
  already past the route) passes no time argument and raises \<^verbatim>\<open>TypeError\<close>;
  \<^verbatim>\<open>max_distance / distance\<close> raises \<^verbatim>\<open>ZeroDivisionError\<close> when the distance is
  zero. Both happen before any field is assigned.
\<close>

definition update_movement :: "vehicle \<Rightarrow> road_graph \<Rightarrow> real \<Rightarrow> real \<Rightarrow> nat \<Rightarrow> vehicle outcome" where
  "update_movement v g simulated_time_step current_simulated_time now =
     (if status v \<notin> {Responding, Returning} \<or> route_nodes v = [] then (None, v)
      else if route_index v \<ge> length (route_geometry v) then (Some TypeError, v)
      else
        let target_pos = route_geometry v ! route_index v;
            max_distance = (current_speed v * 1000 / 3600) * simulated_time_step;
            dx = fst target_pos - fst (current_location v);
            dy = snd target_pos - snd (current_location v);
            distance = sqrt (dx\<^sup>2 + dy\<^sup>2)
        in if distance \<le> max_distance then
             (let v1 = v\<lparr>current_location := target_pos, route_index := route_index v + 1,
                         last_updated := now\<rparr>
              in if route_index v1 \<ge> length (route_geometry v1)
                 then (None, arrive_at_destination v1 current_simulated_time)
                 else (None, v1))
           else if distance = 0 then (Some ZeroDivisionError, v)
           else
             (let ratio = max_distance / distance;
                  v1 = v\<lparr>current_location :=
                             (fst (current_location v) + dx * ratio,
                              snd (current_location v) + dy * ratio),
                         last_updated := now\<rparr>
              in if route_index v1 \<ge> length (route_geometry v1)
                 then (None, arrive_at_destination v1 current_simulated_time)
                 else (None, v1)))"

definition update_patrol_geometry :: "vehicle \<Rightarrow> road_graph \<Rightarrow> vehicle outcome" where
  "update_patrol_geometry v g =
     (case geometry_of_nodes g (patrol_nodes v) [] of
        (e, geom) \<Rightarrow> (e, v\<lparr>patrol_geometry := geom\<rparr>))"

text \<open>\<^verbatim>\<open>start_patrol\<close>: the speed is assigned only when the geometry was built
  without an exception; \<open>patrol_index\<close> is not reset (the reset is commented out in the
  source).\<close>

definition start_patrol :: "vehicle \<Rightarrow> string list \<Rightarrow> road_graph \<Rightarrow> vehicle outcome" where
  "start_patrol v pnodes g =
     (if status v = Idle then
        (case update_patrol_geometry (v\<lparr>status := Patrolling, patrol_nodes := pnodes\<rparr>) g of
           (Some e, v1) \<Rightarrow> (Some e, v1)
         | (None, v1) \<Rightarrow> (None, v1\<lparr>current_speed := patrol_speed v1\<rparr>))
      else (None, v))"

text \<open>\<^verbatim>\<open>update_patrol\<close>: \<^verbatim>\<open>self.patrol_geometry[self.patrol_index]\<close> raises
  \<^verbatim>\<open>IndexError\<close> when the cursor kept from an earlier, longer patrol is out of range.\<close>

definition update_patrol :: "vehicle \<Rightarrow> road_graph \<Rightarrow> real \<Rightarrow> nat \<Rightarrow> vehicle outcome" where
  "update_patrol v g simulated_time_step now =
     (if status v = Patrolling \<and> patrol_geometry v \<noteq> [] then
        (if patrol_index v \<ge> length (patrol_geometry v) then (Some IndexError, v)
         else
           let max_distance = (current_speed v * 1000 / 3600) * simulated_time_step;
               target_pos = patrol_geometry v ! patrol_index v;
               dx = fst target_pos - fst (current_location v);
               dy = snd target_pos - snd (current_location v);
               distance = sqrt (dx\<^sup>2 + dy\<^sup>2)
           in if distance \<le> max_distance then
                (None, v\<lparr>current_location := target_pos,
                         patrol_index := (patrol_index v + 1) mod length (patrol_geometry v),
                         last_updated := now\<rparr>)
              else if distance = 0 then (Some ZeroDivisionError, v)
              else
                (let ratio = max_distance / distance;
                     new_x = fst (current_location v) + dx * ratio;
                     new_y = snd (current_location v) + dy * ratio
                 in (None, v\<lparr>current_location := (new_x, new_y), last_updated := now\<rparr>)))
      else (None, v))"

definition end_patrol :: "vehicle \<Rightarrow> vehicle" where
  "end_patrol v =
     v\<lparr>status := Idle, patrol_nodes := [], patrol_geometry := [], current_speed := 0\<rparr>"

subsection \<open>The simulator\<close>

record simulator =
  graph :: road_graph
  vehicles :: "vehicle list"
  simulated_time :: real
  real_time_step :: real
  simulation_speed :: real

definition get_vehicle_by_id :: "simulator \<Rightarrow> string \<Rightarrow> vehicle option" where
  "get_vehicle_by_id sim vid = find (\<lambda>v. vehicle_id v = vid) (vehicles sim)"

text \<open>\<^verbatim>\<open>if vehicle_type:\<close> and \<^verbatim>\<open>if facility_id:\<close> test truthiness: the filter is
  skipped for \<^verbatim>\<open>None\<close>, for the empty string and for facility 0.\<close>

definition get_available_vehicles :: "simulator \<Rightarrow> string option \<Rightarrow> int option \<Rightarrow> vehicle list" where
  "get_available_vehicles sim vtype fid =
     (let vs0 = vehicles sim;
          vs1 = (case vtype of
                   None \<Rightarrow> vs0
                 | Some t \<Rightarrow> if t = [] then vs0 else filter (\<lambda>v. vehicle_type v = t) vs0);
          vs2 = (case fid of
                   None \<Rightarrow> vs1
                 | Some f \<Rightarrow> if f = 0 then vs1 else filter (\<lambda>v. facility_id v = f) vs1)
      in filter (\<lambda>v. status v \<notin> {Responding, Handling}) vs2)"

definition euclid :: "point \<Rightarrow> point \<Rightarrow> real" where
  "euclid p q = sqrt ((fst p - fst q)\<^sup>2 + (snd p - snd q)\<^sup>2)"

text \<open>\<^verbatim>\<open>find_nearest_node\<close>: a scan with a strict comparison, starting from
  \<^verbatim>\<open>(inf, None)\<close>, here \<open>None\<close>. Reading the coordinates of a node that has none
  raises \<^verbatim>\<open>KeyError\<close>.\<close>

fun nearest_scan ::
  "(string \<times> node_attrs option) list \<Rightarrow> point \<Rightarrow> (real \<times> string) option \<Rightarrow> error + string option" where
  "nearest_scan [] p best = Inr (map_option snd best)"
| "nearest_scan ((n, None) # rest) p best = Inl KeyError"
| "nearest_scan ((n, Some a) # rest) p best =
     (let distance = euclid p (node_x a, node_y a)
      in nearest_scan rest p
           (case best of
              None \<Rightarrow> Some (distance, n)
            | Some (min_distance, nearest_node) \<Rightarrow>
                if distance < min_distance then Some (distance, n)
                else Some (min_distance, nearest_node)))"

definition find_nearest_node :: "road_graph \<Rightarrow> point \<Rightarrow> error + string option" where
  "find_nearest_node g p = nearest_scan (nodes g) p None"




subsubsection \<open>Fleet initialisation\<close>




definition digit_char :: "nat \<Rightarrow> char" where
  "digit_char d = ''0123456789'' ! d"

function str_nat :: "nat \<Rightarrow> string" where
  "str_nat n = (if n < 10 then [digit_char n] else str_nat (n div 10) @ [digit_char (n mod 10)])"
  by pat_completeness auto
termination
  by (relation "measure id") auto

declare str_nat.simps [simp del]





subsubsection \<open>One pass of the simulation loop\<close>

text \<open>
  The shortest-path primitive \<^verbatim>\<open>nx.shortest_path(graph, source, target, weight)\<close> is
  an argument \<open>sp\<close>: given the graph and the two node ids (either may be \<^verbatim>\<open>None\<close>)
  it returns a node list or raises.
\<close>

type_synonym shortest_path = "road_graph \<Rightarrow> string option \<Rightarrow> string option \<Rightarrow> error + string list"




subsection \<open>The controller\<close>

record vehicle_state =
  st_vehicle_id :: string
  st_vehicle_type :: string
  st_facility_id :: int
  st_facility_name :: string
  st_status :: status
  st_location :: point
  st_speed :: real
  st_last_updated :: nat
  st_route_nodes :: "string list"

definition get_state :: "vehicle \<Rightarrow> vehicle_state" where
  "get_state v =
     \<lparr> st_vehicle_id = vehicle_id v, st_vehicle_type = vehicle_type v,
       st_facility_id = facility_id v, st_facility_name = facility_name v,
       st_status = status v, st_location = current_location v,
       st_speed = current_speed v, st_last_updated = last_updated v,
       st_route_nodes = route_nodes v \<rparr>"

record history_entry =
  timestamp :: nat
  entry_vehicles :: "vehicle_state list"

record controller =
  simulator :: simulator
  status_history :: "history_entry list"

text \<open>\<^verbatim>\<open>_capture_status\<close>. The slice \<^verbatim>\<open>h[-1440:]\<close> of a list longer than 1440 is
  its last 1440 elements.\<close>

definition capture_status :: "controller \<Rightarrow> nat \<Rightarrow> controller" where
  "capture_status c now =
     (let vehicle_states = map get_state (vehicles (simulator c));
          entry = \<lparr>timestamp = now, entry_vehicles = vehicle_states\<rparr>;
          h = status_history c @ [entry]
      in c\<lparr>status_history := (if length h > 1440 then drop (length h - 1440) h else h)\<rparr>)"

text \<open>The object returned by \<^verbatim>\<open>get_vehicle_by_id\<close> is the first one in the list
  with that id; mutating it is an update at that position.\<close>

definition vehicle_index :: "vehicle list \<Rightarrow> string \<Rightarrow> nat" where
  "vehicle_index vs vid = length (takeWhile (\<lambda>v. vehicle_id v \<noteq> vid) vs)"

definition store_vehicle :: "controller \<Rightarrow> string \<Rightarrow> vehicle \<Rightarrow> controller" where
  "store_vehicle c vid v =
     c\<lparr>simulator := (simulator c)
         \<lparr>vehicles := (vehicles (simulator c))
            [vehicle_index (vehicles (simulator c)) vid := v]\<rparr>\<rparr>"

text \<open>\<^verbatim>\<open>VehicleController.dispatch_vehicle\<close>. The two \<^verbatim>\<open>ValueError\<close>s are told
  apart by their messages; the second is the specification's
  \<^verbatim>\<open>VehicleUnavailableError\<close>.\<close>

definition dispatch_vehicle ::
  "controller \<Rightarrow> string \<Rightarrow> point \<Rightarrow> string list \<Rightarrow> nat \<Rightarrow> controller outcome" where
  "dispatch_vehicle c vid dest route now =
     (case get_vehicle_by_id (simulator c) vid of
        None \<Rightarrow> (Some (ValueError (''Vehicle '' @ vid @ '' not found'')), c)
      | Some v \<Rightarrow>
          if status v \<in> {Responding, Handling}
          then (Some (ValueError (''Vehicle '' @ vid @ '' is not available'')), c)
          else (case start_response v dest route (graph (simulator c)) of
                  (Some e, v1) \<Rightarrow> (Some e, store_vehicle c vid v1)
                | (None, v1) \<Rightarrow> (None, capture_status (store_vehicle c vid v1) now)))"

subsection \<open>The dispatch endpoint\<close>

record dispatch_request =
  req_vehicle_type :: string
  destination_lon :: real
  destination_lat :: real

record dispatch_response =
  message :: string
  resp_vehicle_id :: string
  route_length :: nat
  estimated_time :: real

text \<open>Python's \<^verbatim>\<open>min(xs, key=f)\<close>: the first element with the least key.\<close>

fun min_by :: "('a \<Rightarrow> real) \<Rightarrow> 'a \<Rightarrow> 'a list \<Rightarrow> 'a" where
  "min_by f best [] = best"
| "min_by f best (x # xs) = min_by f (if f x < f best then x else best) xs"

definition closest_vehicle :: "point \<Rightarrow> vehicle list \<Rightarrow> error + vehicle" where
  "closest_vehicle dest available_vehicles =
     (case available_vehicles of
        [] \<Rightarrow> Inl (ValueError ''min() arg is an empty sequence'')
      | v # vs \<Rightarrow> Inr (min_by (\<lambda>v. euclid (current_location v) dest) v vs))"

text \<open>\<^verbatim>\<open>sum(graph.edges[route[i], route[i+1]]['travel_time'] for i in range(len(route)-1))\<close>:
  a \<^verbatim>\<open>KeyError\<close> when two consecutive route nodes are not joined by an edge.\<close>

fun route_travel_time :: "road_graph \<Rightarrow> string list \<Rightarrow> error + real" where
  "route_travel_time g (u # v # rest) =
     (case map_of (edges g) (u, v) of
        None \<Rightarrow> Inl KeyError
      | Some a \<Rightarrow>
          (case route_travel_time g (v # rest) of
             Inl e \<Rightarrow> Inl e
           | Inr t \<Rightarrow> Inr (travel_time a + t)))"
| "route_travel_time g _ = Inr 0"

text \<open>
  The handler of \<^verbatim>\<open>POST /api/dispatch-vehicle\<close>. \<open>to_proj\<close> is the coordinate
  transformation \<^verbatim>\<open>transformer_to_proj.transform\<close>. \<^verbatim>\<open>HTTPException\<close> 404 is the
  specification's \<^verbatim>\<open>NoAvailableVehicleError\<close>, 400 its \<^verbatim>\<open>NoPathError\<close>; every other
  exception is turned into status 500 by the handler.
\<close>

definition api_dispatch_vehicle ::
  "(real \<times> real \<Rightarrow> point) \<Rightarrow> shortest_path \<Rightarrow> nat \<Rightarrow> controller \<Rightarrow> dispatch_request \<Rightarrow>
   (error + dispatch_response) \<times> controller" where
  "api_dispatch_vehicle to_proj sp now c request =
     (let dest = to_proj (destination_lon request, destination_lat request);
          sim = simulator c;
          available_vehicles = get_available_vehicles sim (Some (req_vehicle_type request)) None
      in if available_vehicles = [] then (Inl (HTTPException 404), c)
         else
           (case closest_vehicle dest available_vehicles of
              Inl e \<Rightarrow> (Inl (HTTPException 500), c)
            | Inr closest \<Rightarrow>
                (case find_nearest_node (graph sim) (current_location closest) of
                   Inl e \<Rightarrow> (Inl (HTTPException 500), c)
                 | Inr origin_node \<Rightarrow>
                     (case find_nearest_node (graph sim) dest of
                        Inl e \<Rightarrow> (Inl (HTTPException 500), c)
                      | Inr nearest_node \<Rightarrow>
                          (case sp (graph sim) origin_node nearest_node of
                             Inl e \<Rightarrow>
                               (Inl (HTTPException (if e = NetworkXNoPath then 400 else 500)), c)
                           | Inr route \<Rightarrow>
                               (case dispatch_vehicle c (vehicle_id closest) dest route now of
                                  (Some e, c1) \<Rightarrow> (Inl (HTTPException 500), c1)
                                | (None, c1) \<Rightarrow>
                                    (case route_travel_time (graph sim) route of
                                       Inl e \<Rightarrow> (Inl (HTTPException 500), c1)
                                     | Inr t \<Rightarrow>
                                         (Inr \<lparr> message = ''Closest '' @ req_vehicle_type request
                                                   @ '' ('' @ vehicle_id closest @ '') dispatched'',
                                                 resp_vehicle_id = vehicle_id closest,
                                                 route_length = length route,
                                                 estimated_time = t \<rparr>, c1))))))))"

section \<open>Building the road graph\<close>

text \<open>
  \<^verbatim>\<open>create_road_network_graph\<close> of \<^verbatim>\<open>data_processing.py\<close>. A road row is its
  index label with its attributes; its geometry is a \<^verbatim>\<open>LineString\<close> with its
  coordinate list or something else. A missing (\<^verbatim>\<open>None\<close>, NaN) speed limit is
  \<open>None\<close>.
\<close>

datatype geom = LineString "point list" | OtherGeometry

record road =
  speed_limit :: "real option"
  traffic_direction :: string
  road_geometry :: geom

record junction =
  junction_node_id :: string
  junction_location :: point

record build_state =
  build_graph :: road_graph
  junction_points :: "point \<rightharpoonup> string"
  node_counter :: nat

text \<open>\<^verbatim>\<open>round(x, 2)\<close>, with HOL's rounding of the scaled value (ties are rounded up
  here, to even in Python; no property below depends on the rounding).\<close>

definition round2 :: "real \<Rightarrow> real" where
  "round2 x = real_of_int (round (x * 100)) / 100"

text \<open>\<^verbatim>\<open>G.add_node(n, x=.., y=.., type=..)\<close> sets the three attributes of a new or
  existing node; \<^verbatim>\<open>G.add_edge(u, v, **attrs)\<close> creates missing endpoints without
  attributes and sets all five attributes of the new or existing edge.\<close>

definition add_node :: "road_graph \<Rightarrow> string \<Rightarrow> node_attrs \<Rightarrow> road_graph" where
  "add_node g n a = g\<lparr>nodes := AList.update n (Some a) (nodes g)\<rparr>"

definition ensure_node :: "string \<Rightarrow> (string \<times> node_attrs option) list \<Rightarrow> (string \<times> node_attrs option) list" where
  "ensure_node n ns = (if map_of ns n = None then ns @ [(n, None)] else ns)"

definition add_edge :: "road_graph \<Rightarrow> string \<Rightarrow> string \<Rightarrow> edge_attrs \<Rightarrow> road_graph" where
  "add_edge g u v a =
     g\<lparr>nodes := ensure_node v (ensure_node u (nodes g)),
       edges := AList.update (u, v) a (edges g)\<rparr>"

definition add_junction :: "build_state \<Rightarrow> junction \<Rightarrow> build_state" where
  "add_junction st jn =
     (let node_id = ''J_'' @ junction_node_id jn;
          x = fst (junction_location jn);
          y = snd (junction_location jn)
      in st\<lparr>build_graph :=
              add_node (build_graph st) node_id
                \<lparr>node_x = x, node_y = y, node_type = ''junction''\<rparr>,
            junction_points := (junction_points st)((round2 x, round2 y) \<mapsto> node_id)\<rparr>)"

text \<open>\<^verbatim>\<open>junction_tree.query([[x, y]], k=1)\<close>: distance and position of a nearest
  junction, found here by a scan that keeps the first among equally near ones.\<close>

fun nearest_index :: "point list \<Rightarrow> point \<Rightarrow> nat \<Rightarrow> real \<times> nat \<Rightarrow> real \<times> nat" where
  "nearest_index [] p i best = best"
| "nearest_index (q # qs) p i best =
     nearest_index qs p (i + 1) (if euclid p q < fst best then (euclid p q, i) else best)"

definition kd_query :: "junction \<Rightarrow> junction list \<Rightarrow> point \<Rightarrow> real \<times> nat" where
  "kd_query j js p =
     nearest_index (map junction_location js) p 1 (euclid p (junction_location j), 0)"

definition junction_tolerance :: real where
  "junction_tolerance = 1.0"

text \<open>The body of \<^verbatim>\<open>for i, (x, y) in enumerate(coords)\<close>; \<open>n\<close> is
  \<^verbatim>\<open>len(coords)\<close>, \<open>j # js\<close> the junction table.\<close>

definition visit_coord ::
  "junction \<Rightarrow> junction list \<Rightarrow> nat \<Rightarrow> build_state \<times> (string \<times> point) list \<Rightarrow> nat \<times> point \<Rightarrow>
   build_state \<times> (string \<times> point) list" where
  "visit_coord j js n acc ic =
     (let st = fst acc; road_nodes = snd acc;
          i = fst ic; x = fst (snd ic); y = snd (snd ic);
          is_endpoint = (i = 0 \<or> i = n - 1);
          rounded_key = (round2 x, round2 y)
      in case junction_points st rounded_key of
           Some node_id \<Rightarrow> (st, road_nodes @ [(node_id, (x, y))])
         | None \<Rightarrow>
             (let q = kd_query j js (x, y)
              in if fst q \<le> junction_tolerance then
                   (st, road_nodes @ [(''J_'' @ junction_node_id ((j # js) ! snd q), (x, y))])
                 else if is_endpoint \<or> i mod max 1 (n div 10) = 0 then
                   (let node_id = ''R_'' @ str_nat (node_counter st)
                    in (st\<lparr>node_counter := node_counter st + 1,
                            build_graph :=
                              add_node (build_graph st) node_id
                                \<lparr>node_x = x, node_y = y, node_type = ''road_vertex''\<rparr>,
                            junction_points := (junction_points st)(rounded_key \<mapsto> node_id)\<rparr>,
                        road_nodes @ [(node_id, (x, y))]))
                 else (st, road_nodes)))"

definition speed_kph_of :: "road \<Rightarrow> real" where
  "speed_kph_of r =
     (case speed_limit r of
        None \<Rightarrow> 40
      | Some s \<Rightarrow> if s \<noteq> 0 \<and> s > 0 then s else 40)"

text \<open>The attributes given to \<^verbatim>\<open>G.add_edge\<close> for the segment between
  \<^verbatim>\<open>road_nodes[i]\<close> and \<^verbatim>\<open>road_nodes[i + 1]\<close>.\<close>

definition segment_attrs ::
  "int \<Rightarrow> road \<Rightarrow> point list \<Rightarrow> (string \<times> point) list \<Rightarrow> nat \<Rightarrow> edge_attrs" where
  "segment_attrs rid r coords road_nodes i =
     (let start_coords = snd (road_nodes ! i);
          end_coords = snd (road_nodes ! (i + 1));
          dx = fst end_coords - fst start_coords;
          dy = snd end_coords - snd start_coords;
          segment_length = sqrt (dx\<^sup>2 + dy\<^sup>2);
          segment_geom = (if i = 0 \<and> i + 1 = length road_nodes - 1 then coords
                          else [start_coords, end_coords]);
          speed_kph = speed_kph_of r;
          tt = (segment_length / 1000) / (speed_kph / 60)
      in \<lparr>road_id = rid, edge_length = segment_length, speed = speed_kph,
          travel_time = tt, geometry = segment_geom\<rparr>)"

text \<open>The body of \<^verbatim>\<open>for i in range(len(road_nodes) - 1)\<close>. The lookup
  \<^verbatim>\<open>G[start_id][end_id]\<close> reads the edge added one statement before, so it never
  fails.\<close>

definition add_segment ::
  "int \<Rightarrow> road \<Rightarrow> point list \<Rightarrow> (string \<times> point) list \<Rightarrow> road_graph \<Rightarrow> nat \<Rightarrow> road_graph" where
  "add_segment rid r coords road_nodes g i =
     (let start_id = fst (road_nodes ! i);
          end_id = fst (road_nodes ! (i + 1))
      in if start_id = end_id then g
         else
           (let g1 = add_edge g start_id end_id (segment_attrs rid r coords road_nodes i)
            in if traffic_direction r = ''Both directions'' then
                 (case map_of (edges g1) (start_id, end_id) of
                    Some a \<Rightarrow> add_edge g1 end_id start_id a
                  | None \<Rightarrow> g1)
               else g1))"

definition process_road ::
  "junction \<Rightarrow> junction list \<Rightarrow> build_state \<Rightarrow> int \<times> road \<Rightarrow> build_state" where
  "process_road j js st row =
     (case road_geometry (snd row) of
        OtherGeometry \<Rightarrow> st
      | LineString coords \<Rightarrow>
          if length coords < 2 then st
          else
            (let acc = foldl (visit_coord j js (length coords)) (st, []) (enumerate 0 coords);
                 st1 = fst acc; road_nodes = snd acc
             in if length road_nodes < 2 then st1
                else st1\<lparr>build_graph :=
                           foldl (add_segment (fst row) (snd row) coords road_nodes)
                             (build_graph st1) [0 ..< length road_nodes - 1]\<rparr>))"

text \<open>\<^verbatim>\<open>for batch_start in range(0, len(roads), 1000)\<close> with
  \<^verbatim>\<open>roads.iloc[batch_start:min(batch_start + 1000, len(roads))]\<close>.\<close>

definition batch_size :: nat where
  "batch_size = 1000"

definition road_batches :: "'a list \<Rightarrow> 'a list list" where
  "road_batches roads =
     map (\<lambda>batch_start.
            take (min (batch_start + batch_size) (length roads) - batch_start)
              (drop batch_start roads))
       (map (\<lambda>k. k * batch_size) [0 ..< (length roads + (batch_size - 1)) div batch_size])"

text \<open>The whole build. With no junction at all the construction of the k-d tree
  raises \<^verbatim>\<open>ValueError\<close> before any road is read; otherwise the graph is returned (the
  connectivity report at the end only prints).\<close>

definition add_junctions :: "junction list \<Rightarrow> build_state" where
  "add_junctions junctions =
     foldl add_junction
       \<lparr>build_graph = \<lparr>nodes = [], edges = []\<rparr>,
        junction_points = Map.empty, node_counter = 0\<rparr> junctions"

definition create_road_network_graph :: "(int \<times> road) list \<Rightarrow> junction list \<Rightarrow> error + road_graph" where
  "create_road_network_graph roads junctions =
     (case junctions of
        [] \<Rightarrow> Inl (ValueError ''Expected 2D array, got 1D array instead'')
      | j # js \<Rightarrow>
          (let st0 = add_junctions junctions;
               st = foldl (\<lambda>st batch. foldl (process_road j js) st batch) st0
                      (road_batches roads)
           in Inr (build_graph st)))"

text \<open>
  What the build prints. The lines of the final connectivity report depend on the graph
  only; they are computed by networkx and are an argument \<open>connectivity_report\<close> here.
  An exception ends the output after the second line.
\<close>

definition printed_output ::
  "(road_graph \<Rightarrow> string list) \<Rightarrow> (int \<times> road) list \<Rightarrow> junction list \<Rightarrow> string list" where
  "printed_output connectivity_report roads junctions =
     (case create_road_network_graph roads junctions of
        Inl e \<Rightarrow> [''Adding junctions to graph...'', ''Creating spatial index for junctions...'']
      | Inr g \<Rightarrow>
          [''Adding junctions to graph...'', ''Creating spatial index for junctions...'',
           ''Processing roads...'',
           ''Created graph with '' @ str_nat (length (nodes g)) @ '' nodes and ''
             @ str_nat (length (edges g)) @ '' edges'']
          @ connectivity_report g)"

section \<open>Runs of the whole system\<close>











section \<open>Predicates used in the properties of the build\<close>

text \<open>A node has coordinates when \<^verbatim>\<open>graph.nodes[n]\<close> exists and carries \<open>x\<close> and
  \<open>y\<close>. The remaining predicates say what holds of the edges while the build runs.\<close>

definition has_coordinates :: "road_graph \<Rightarrow> string \<Rightarrow> bool" where
  "has_coordinates g n \<longleftrightarrow> (\<exists>a. map_of (nodes g) n = Some (Some a))"

definition edge_attrs_ok :: "(int \<times> road) list \<Rightarrow> edge_attrs \<Rightarrow> bool" where
  "edge_attrs_ok roads a \<longleftrightarrow>
     travel_time a = (edge_length a / 1000) / (speed a / 60)
     \<and> (\<exists>row \<in> set roads. road_id a = fst row
           \<and> speed a = (case speed_limit (snd row) of None \<Rightarrow> 40 | Some s \<Rightarrow> if s > 0 then s else 40))
     \<and> (edge_length a > 0 \<longrightarrow> travel_time a > 0)"

definition edges_inv :: "(int \<times> road) list \<Rightarrow> road_graph \<Rightarrow> bool" where
  "edges_inv roads g \<longleftrightarrow>
     (\<forall>e \<in> set (edges g).
           has_coordinates g (fst (fst e)) \<and> has_coordinates g (snd (fst e))
           \<and> edge_attrs_ok roads (snd e))"

definition state_inv :: "(int \<times> road) list \<Rightarrow> junction list \<Rightarrow> build_state \<Rightarrow> bool" where
  "state_inv roads junctions st \<longleftrightarrow>
     (\<forall>k n. junction_points st k = Some n \<longrightarrow> has_coordinates (build_graph st) n)
     \<and> (\<forall>jn \<in> set junctions. has_coordinates (build_graph st) (''J_'' @ junction_node_id jn))
     \<and> edges_inv roads (build_graph st)"

definition walk_inv :: "(int \<times> road) list \<Rightarrow> junction list \<Rightarrow> build_state \<times> (string \<times> point) list \<Rightarrow> bool" where
  "walk_inv roads junctions acc \<longleftrightarrow>
     state_inv roads junctions (fst acc)
     \<and> (\<forall>x \<in> set (snd acc). has_coordinates (build_graph (fst acc)) (fst x))"

definition all_two_way :: "(int \<times> road) list \<Rightarrow> int \<Rightarrow> bool" where
  "all_two_way roads rid \<longleftrightarrow>
     (\<forall>row \<in> set roads. fst row = rid \<longrightarrow> traffic_direction (snd row) = ''Both directions'')"

definition mirror_inv :: "(int \<times> road) list \<Rightarrow> ((string \<times> string) \<rightharpoonup> edge_attrs) \<Rightarrow> bool" where
  "mirror_inv roads m \<longleftrightarrow>
     (\<forall>u v a. m (u, v) = Some a \<and> all_two_way roads (road_id a) \<longrightarrow>
        (\<exists>b. m (v, u) = Some b \<and> (road_id b = road_id a \<longrightarrow> b = a)))"

section \<open>Example data\<close>

text \<open>Concrete graphs, vehicles and fleets on which the properties below are
  evaluated.\<close>

definition example_graph :: road_graph where
  "example_graph =
     \<lparr>nodes = [(''J_1'', Some \<lparr>node_x = 0, node_y = 0, node_type = ''junction''\<rparr>),
               (''J_2'', Some \<lparr>node_x = 3, node_y = 4, node_type = ''junction''\<rparr>)],
      edges = []\<rparr>"

text \<open>An ambulance on its way from the facility at the origin to the node at \<open>(3, 4)\<close>.\<close>

definition example_responding :: vehicle where
  "example_responding =
     (new_vehicle ''AMB-1'' Ambulance 0 ''Base'' (0, 0) 0)
       \<lparr>status := Responding, destination := Some (3, 4), route_nodes := [''J_2''],
        route_geometry := [(3, 4)], current_speed := 90\<rparr>"

text \<open>An ambulance of the facility at \<open>(1, 1)\<close> that handled a call at the node
  \<^verbatim>\<open>J_1\<close> at \<open>(0, 0)\<close> and was just sent home. \<^verbatim>\<open>J_1\<close> is the nearest node of
  the vehicle and of the facility, so the route home is \<^verbatim>\<open>[J_1]\<close>.\<close>

definition example_returning :: vehicle where
  "example_returning =
     snd (return_to_facility
            ((new_vehicle ''AMB-1'' Ambulance 0 ''Base'' (1, 1) 0)
               \<lparr>status := Handling, current_location := (0, 0),
                handling_start_time := Some 0, handling_duration := Some 600\<rparr>)
            [''J_1''] example_graph)"

definition empty_history_entry :: history_entry where
  "empty_history_entry = \<lparr>timestamp = 0, entry_vehicles = []\<rparr>"

definition example_simulator :: "vehicle list \<Rightarrow> simulator" where
  "example_simulator vs =
     \<lparr>graph = example_graph, vehicles = vs, simulated_time = 0, real_time_step = 1,
      simulation_speed = 100\<rparr>"

definition full_history_controller :: controller where
  "full_history_controller =
     \<lparr>simulator = example_simulator [], status_history = replicate 1440 empty_history_entry\<rparr>"

text \<open>Three idle ambulances at distances 5, 2 and 8 from the origin.\<close>

definition ambulance_at :: "string \<Rightarrow> point \<Rightarrow> vehicle" where
  "ambulance_at vid p = new_vehicle vid Ambulance 0 ''Base'' p 0"

definition example_fleet_controller :: controller where
  "example_fleet_controller =
     \<lparr>simulator = example_simulator
        [ambulance_at ''AMB-1'' (5, 0), ambulance_at ''AMB-2'' (2, 0), ambulance_at ''AMB-3'' (0, 8)],
      status_history = []\<rparr>"

definition example_request :: "string \<Rightarrow> dispatch_request" where
  "example_request t = \<lparr>req_vehicle_type = t, destination_lon = 0, destination_lat = 0\<rparr>"

text \<open>A shortest-path primitive that always answers with the one-node route
  \<^verbatim>\<open>[J_1]\<close>.\<close>

definition example_shortest_path :: shortest_path where
  "example_shortest_path g s t = Inr [''J_1'']"

text \<open>A fleet with a responding and an idle ambulance, and a fleet in which the only
  ambulance is responding.\<close>

definition example_mixed_controller :: controller where
  "example_mixed_controller =
     \<lparr>simulator = example_simulator [example_responding, ambulance_at ''AMB-2'' (2, 0)],
      status_history = []\<rparr>"

definition example_busy_controller :: controller where
  "example_busy_controller =
     \<lparr>simulator = example_simulator [example_responding], status_history = []\<rparr>"

text \<open>Two junctions two units apart; a two-way road from the first to the second
  with speed limit 50, a one-way road back with speed limit 30, and a road whose geometry
  is a single point.\<close>

definition example_junctions :: "junction list" where
  "example_junctions =
     [\<lparr>junction_node_id = ''a'', junction_location = (0, 0)\<rparr>,
      \<lparr>junction_node_id = ''b'', junction_location = (2, 0)\<rparr>]"

definition two_way_road :: road where
  "two_way_road =
     \<lparr>speed_limit = Some 50, traffic_direction = ''Both directions'',
      road_geometry = LineString [(0, 0), (2, 0)]\<rparr>"

definition one_way_back_road :: road where
  "one_way_back_road =
     \<lparr>speed_limit = Some 30, traffic_direction = ''Same direction'',
      road_geometry = LineString [(2, 0), (0, 0)]\<rparr>"

definition degenerate_road :: road where
  "degenerate_road =
     \<lparr>speed_limit = Some 50, traffic_direction = ''Both directions'',
      road_geometry = LineString [(1, 1)]\<rparr>"

definition junction_nodes_only :: road_graph where
  "junction_nodes_only =
     \<lparr>nodes = [(''J_a'', Some \<lparr>node_x = 0, node_y = 0, node_type = ''junction''\<rparr>),
               (''J_b'', Some \<lparr>node_x = 2, node_y = 0, node_type = ''junction''\<rparr>)],
      edges = []\<rparr>"

text \<open>A graph with a single node is strongly connected, so the connectivity report
  of such a graph is empty.\<close>

definition no_connectivity_report :: "road_graph \<Rightarrow> string list" where
  "no_connectivity_report g = []"

definition two_way_attrs :: edge_attrs where
  "two_way_attrs =
     \<lparr>road_id = 1, edge_length = 2, speed = 50, travel_time = 3 / 1250,
      geometry = [(0, 0), (2, 0)]\<rparr>"

definition one_way_back_attrs :: edge_attrs where
  "one_way_back_attrs =
     \<lparr>road_id = 2, edge_length = 2, speed = 30, travel_time = 1 / 250,
      geometry = [(2, 0), (0, 0)]\<rparr>"

definition two_way_graph :: road_graph where
  "two_way_graph =
     junction_nodes_only
       \<lparr>edges := [((''J_a'', ''J_b''), two_way_attrs), ((''J_b'', ''J_a''), two_way_attrs)]\<rparr>"

definition overwritten_graph :: road_graph where
  "overwritten_graph =
     junction_nodes_only
       \<lparr>edges := [((''J_a'', ''J_b''), two_way_attrs), ((''J_b'', ''J_a''), one_way_back_attrs)]\<rparr>"

definition single_junction :: "junction list" where
  "single_junction = [\<lparr>junction_node_id = ''a'', junction_location = (0, 0)\<rparr>]"

definition single_node_graph :: road_graph where
  "single_node_graph =
     \<lparr>nodes = [(''J_a'', Some \<lparr>node_x = 0, node_y = 0, node_type = ''junction''\<rparr>)],
      edges = []\<rparr>"



















section \<open>Properties\<close>

subsection \<open>Patrol start outside the idle state\<close>

text \<open>
  Claim C10. For a police car whose status is not idle, \<^verbatim>\<open>start_patrol\<close> with any
  patrol node list and any graph raises nothing and returns the vehicle as it was: status,
  patrol nodes, patrol geometry, speed and location (and every other field) are
  unchanged.
\<close>

theorem start_patrol_not_idle_noop:
  "kind v = PoliceCar \<Longrightarrow> status v \<noteq> Idle \<Longrightarrow> start_patrol v pnodes g = (None, v)"
  by (simp add: start_patrol_def)

theorem start_patrol_not_idle_noop_witness:
  "kind ((new_vehicle ''POL-1'' PoliceCar 0 ''Station'' (0, 0) 0)\<lparr>status := Responding\<rparr>) = PoliceCar
   \<and> status ((new_vehicle ''POL-1'' PoliceCar 0 ''Station'' (0, 0) 0)\<lparr>status := Responding\<rparr>) \<noteq> Idle
   \<and> start_patrol ((new_vehicle ''POL-1'' PoliceCar 0 ''Station'' (0, 0) 0)\<lparr>status := Responding\<rparr>)
         [''J_1'', ''J_2''] \<lparr>nodes = [], edges = []\<rparr>
       = (None, (new_vehicle ''POL-1'' PoliceCar 0 ''Station'' (0, 0) 0)\<lparr>status := Responding\<rparr>)"
  using start_patrol_not_idle_noop
          [of "(new_vehicle ''POL-1'' PoliceCar 0 ''Station'' (0, 0) 0)\<lparr>status := Responding\<rparr>"
              "[''J_1'', ''J_2'']" "\<lparr>nodes = [], edges = []\<rparr>"]
  by (simp add: new_vehicle_def)

subsection \<open>Movement with a zero time step\<close>

lemma sum_squares_le_zero:
  "(a - x)\<^sup>2 + (b - y)\<^sup>2 \<le> 0 \<longleftrightarrow> a = x \<and> b = (y::real)"
  by (simp add: sum_power2_le_zero_iff)

text \<open>What a zero step does to a vehicle that stands exactly on the last waypoint of
  its route: the waypoint counts as reached and the arrival is processed.\<close>

lemma update_movement_zero_step_arrival:
  "status v \<in> {Responding, Returning} \<Longrightarrow> route_nodes v \<noteq> [] \<Longrightarrow>
   route_index v + 1 = length (route_geometry v) \<Longrightarrow>
   current_location v = route_geometry v ! route_index v \<Longrightarrow>
   update_movement v g 0 t now
     = (None, arrive_at_destination (v\<lparr>route_index := route_index v + 1, last_updated := now\<rparr>) t)"
  by (auto simp: update_movement_def Let_def sum_squares_le_zero prod_eq_iff
        arrive_at_destination_def arrive_at_facility_def)

text \<open>
  Claim C1, as amended. With \<open>simulated_time_step = 0\<close>, \<^verbatim>\<open>update_patrol\<close> never
  changes the location or the status of a vehicle, and \<^verbatim>\<open>update_movement\<close> leaves
  both unchanged unless the vehicle is responding or returning and stands exactly on the
  last waypoint of its route. (In that case the comparison \<^verbatim>\<open>distance <= max_distance\<close>
  is \<open>0 \<le> 0\<close> and the arrival transition runs, see
  \<open>update_movement_zero_step_arrival\<close>.)
\<close>

theorem zero_time_step_keeps_location_and_status:
  "current_location (snd (update_patrol v g 0 now)) = current_location v
   \<and> status (snd (update_patrol v g 0 now)) = status v
   \<and> (\<not> (status v \<in> {Responding, Returning} \<and> route_nodes v \<noteq> []
           \<and> route_index v + 1 = length (route_geometry v)
           \<and> current_location v = route_geometry v ! route_index v) \<longrightarrow>
        current_location (snd (update_movement v g 0 t now)) = current_location v
        \<and> status (snd (update_movement v g 0 t now)) = status v)"
proof (intro conjI impI)
  show "current_location (snd (update_patrol v g 0 now)) = current_location v"
    by (simp add: update_patrol_def Let_def sum_squares_le_zero prod_eq_iff)
  show "status (snd (update_patrol v g 0 now)) = status v"
    by (simp add: update_patrol_def Let_def)
next
  assume "\<not> (status v \<in> {Responding, Returning} \<and> route_nodes v \<noteq> []
           \<and> route_index v + 1 = length (route_geometry v)
           \<and> current_location v = route_geometry v ! route_index v)"
  then show "current_location (snd (update_movement v g 0 t now)) = current_location v"
    and "status (snd (update_movement v g 0 t now)) = status v"
    by (auto simp: update_movement_def Let_def sum_squares_le_zero prod_eq_iff
          arrive_at_destination_def)
qed

theorem zero_time_step_keeps_location_and_status_witness:
  "\<not> (status example_responding \<in> {Responding, Returning}
        \<and> route_nodes example_responding \<noteq> []
        \<and> route_index example_responding + 1 = length (route_geometry example_responding)
        \<and> current_location example_responding
            = route_geometry example_responding ! route_index example_responding)
   \<and> current_location (snd (update_movement example_responding example_graph 0 0 1)) = (0, 0)
   \<and> status (snd (update_movement example_responding example_graph 0 0 1)) = Responding"
  using zero_time_step_keeps_location_and_status [of example_responding example_graph 1 0]
  by (simp add: example_responding_def new_vehicle_def)

text \<open>The claim as stated fails: a returning vehicle that stands on the last waypoint
  of its route, away from its facility, becomes idle and jumps to the facility although no
  time passes.\<close>

theorem zero_time_step_counterexample:
  "status (snd (update_movement example_returning example_graph 0 0 1)) \<noteq> status example_returning
   \<and> current_location (snd (update_movement example_returning example_graph 0 0 1))
       \<noteq> current_location example_returning"
  by (simp add: example_returning_def example_graph_def return_to_facility_def
        update_route_geometry_def node_position_def new_vehicle_def update_movement_def
        arrive_at_destination_def arrive_at_facility_def Let_def)

subsection \<open>The history never exceeds 1440 entries\<close>

text \<open>
  Claim C3. After \<^verbatim>\<open>_capture_status\<close> the history has at most 1440 entries. When it
  held exactly 1440 before, it holds exactly 1440 after: the oldest entry is gone, the
  others keep their order and the new entry is last.
\<close>

theorem capture_status_history_cap:
  "length (status_history (capture_status c now)) \<le> 1440
   \<and> (length (status_history c) = 1440 \<longrightarrow>
        length (status_history (capture_status c now)) = 1440
        \<and> status_history (capture_status c now)
            = tl (status_history c)
              @ [\<lparr>timestamp = now, entry_vehicles = map get_state (vehicles (simulator c))\<rparr>])"
proof (intro conjI impI)
  show "length (status_history (capture_status c now)) \<le> 1440"
    by (simp add: capture_status_def Let_def)
next
  assume full: "length (status_history c) = 1440"
  then show "length (status_history (capture_status c now)) = 1440"
    by (simp add: capture_status_def Let_def)
  from full show "status_history (capture_status c now)
      = tl (status_history c)
        @ [\<lparr>timestamp = now, entry_vehicles = map get_state (vehicles (simulator c))\<rparr>]"
    by (cases "status_history c") (simp_all add: capture_status_def Let_def)
qed

theorem capture_status_history_cap_witness:
  "length (status_history full_history_controller) = 1440
   \<and> length (status_history (capture_status full_history_controller 7)) = 1440
   \<and> status_history (capture_status full_history_controller 7)
       = replicate 1439 empty_history_entry @ [\<lparr>timestamp = 7, entry_vehicles = []\<rparr>]"
  using capture_status_history_cap [of full_history_controller 7]
  by (simp add: full_history_controller_def example_simulator_def)

subsection \<open>Dispatch chooses the first nearest available vehicle\<close>

text \<open>\<^verbatim>\<open>min\<close> with a key returns an element with the least key, and every element
  before it has a strictly greater key.\<close>

lemma min_by_first_min:
  "\<exists>pre post. b # xs = pre @ min_by f b xs # post
      \<and> (\<forall>x \<in> set (b # xs). f (min_by f b xs) \<le> f x)
      \<and> (\<forall>x \<in> set pre. f (min_by f b xs) < f x)"
proof (induction xs arbitrary: b rule: rev_induct)
  case Nil
  show ?case by (rule exI[of _ "[]"]) simp
next
  case (snoc y ys)
  have fold: "min_by f b (ys @ [y]) = (if f y < f (min_by f b ys) then y else min_by f b ys)" for b
    by (induction ys arbitrary: b) simp_all
  from snoc[of b] obtain pre post where
    P: "b # ys = pre @ min_by f b ys # post"
       "\<forall>x \<in> set (b # ys). f (min_by f b ys) \<le> f x"
       "\<forall>x \<in> set pre. f (min_by f b ys) < f x" by blast
  show ?case
  proof (cases "f y < f (min_by f b ys)")
    case True
    have "b # ys @ [y] = (b # ys) @ min_by f b (ys @ [y]) # []" using True fold by simp
    moreover have "\<forall>x \<in> set (b # ys @ [y]). f (min_by f b (ys @ [y])) \<le> f x"
      using True fold P(2) by fastforce
    moreover have "\<forall>x \<in> set (b # ys). f (min_by f b (ys @ [y])) < f x"
      using True fold P(2) by fastforce
    ultimately show ?thesis by blast
  next
    case False
    have "b # ys @ [y] = pre @ min_by f b (ys @ [y]) # (post @ [y])" using False fold P(1)
      by (metis append_Cons append_assoc)
    moreover have "\<forall>x \<in> set (b # ys @ [y]). f (min_by f b (ys @ [y])) \<le> f x"
      using False fold P(2) by fastforce
    moreover have "\<forall>x \<in> set pre. f (min_by f b (ys @ [y])) < f x"
      using False fold P(3) by simp
    ultimately show ?thesis by blast
  qed
qed

text \<open>An element of a filtered list sits in the original list behind exactly the
  elements whose filtered image precedes it.\<close>

lemma filter_eq_append_Cons_split:
  "filter P vs = pre @ c # post \<Longrightarrow>
   \<exists>us ws. vs = us @ c # ws \<and> filter P us = pre \<and> P c"
proof (induction vs arbitrary: pre)
  case Nil then show ?case by simp
next
  case (Cons a vs)
  show ?case
  proof (cases "P a")
    case False
    with Cons.prems have "filter P vs = pre @ c # post" by simp
    from Cons.IH[OF this] obtain us ws where "vs = us @ c # ws" "filter P us = pre" "P c" by blast
    then have "a # vs = (a # us) @ c # ws \<and> filter P (a # us) = pre \<and> P c" using False by simp
    then show ?thesis by blast
  next
    case True
    show ?thesis
    proof (cases pre)
      case Nil
      with Cons.prems True have "a = c" by simp
      then have "a # vs = [] @ c # vs \<and> filter P [] = pre \<and> P c" using Nil True by simp
      then show ?thesis by blast
    next
      case (Cons p ps)
      with Cons.prems True have pa: "p = a" and "filter P vs = ps @ c # post" by simp_all
      from Cons.IH[OF this(2)] obtain us ws where "vs = us @ c # ws" "filter P us = ps" "P c" by blast
      then have "a # vs = (a # us) @ c # ws \<and> filter P (a # us) = pre \<and> P c"
        using True Cons pa by simp
      then show ?thesis by blast
    qed
  qed
qed

lemma vehicle_type_nonempty: "vehicle_type v \<noteq> []"
  by (cases "kind v") (simp_all add: vehicle_type_def)

lemma available_typed:
  "t \<noteq> [] \<Longrightarrow> get_available_vehicles sim (Some t) None
     = filter (\<lambda>v. vehicle_type v = t \<and> status v \<notin> {Responding, Handling}) (vehicles sim)"
  by (simp add: get_available_vehicles_def Let_def conj_commute)

text \<open>A successful answer of the endpoint names the vehicle that \<^verbatim>\<open>min\<close>
  selected.\<close>

lemma api_success_vehicle:
  assumes "api_dispatch_vehicle to_proj sp now c request = (Inr r, c1)"
    and "closest_vehicle (to_proj (destination_lon request, destination_lat request))
             (get_available_vehicles (simulator c) (Some (req_vehicle_type request)) None) = Inr m"
  shows "resp_vehicle_id r = vehicle_id m"
proof -
  let ?dest = "to_proj (destination_lon request, destination_lat request)"
  let ?g = "graph (simulator c)"
  from assms obtain o_n where 1: "find_nearest_node ?g (current_location m) = Inr o_n"
    by (cases "find_nearest_node ?g (current_location m)")
       (simp_all add: api_dispatch_vehicle_def Let_def split: if_splits)
  from assms 1 obtain n_n where 2: "find_nearest_node ?g ?dest = Inr n_n"
    by (cases "find_nearest_node ?g ?dest")
       (simp_all add: api_dispatch_vehicle_def Let_def split: if_splits)
  from assms 1 2 obtain route where 3: "sp ?g o_n n_n = Inr route"
    by (cases "sp ?g o_n n_n")
       (simp_all add: api_dispatch_vehicle_def Let_def split: if_splits)
  obtain e c2 where 4: "dispatch_vehicle c (vehicle_id m) ?dest route now = (e, c2)"
    by (cases "dispatch_vehicle c (vehicle_id m) ?dest route now") auto
  from assms 1 2 3 4 have 5: "e = None"
    by (cases e) (simp_all add: api_dispatch_vehicle_def Let_def split: if_splits)
  from assms 1 2 3 4 5 show ?thesis
    by (cases "route_travel_time ?g route")
       (auto simp add: api_dispatch_vehicle_def Let_def split: if_splits)
qed

text \<open>
  Claim C2. When some vehicle of the requested type is neither responding nor handling,
  the endpoint's selection \<^verbatim>\<open>closest_vehicle\<close> is such a vehicle of the fleet; its
  Euclidean distance to the destination is least among all available vehicles of that
  type; every available vehicle of that type that comes before it in the fleet list is
  strictly farther away (so among equally near ones the first is taken); and a successful
  dispatch reports this vehicle's id.
\<close>

theorem dispatch_selects_closest:
  assumes ex: "\<exists>v \<in> set (vehicles (simulator c)).
                 vehicle_type v = req_vehicle_type request \<and> status v \<notin> {Responding, Handling}"
  shows "\<exists>chosen pre post.
           closest_vehicle (to_proj (destination_lon request, destination_lat request))
             (get_available_vehicles (simulator c) (Some (req_vehicle_type request)) None) = Inr chosen
         \<and> vehicles (simulator c) = pre @ chosen # post
         \<and> vehicle_type chosen = req_vehicle_type request
         \<and> status chosen \<notin> {Responding, Handling}
         \<and> (\<forall>v \<in> set (vehicles (simulator c)).
               vehicle_type v = req_vehicle_type request \<and> status v \<notin> {Responding, Handling} \<longrightarrow>
               euclid (current_location chosen) (to_proj (destination_lon request, destination_lat request))
                 \<le> euclid (current_location v) (to_proj (destination_lon request, destination_lat request)))
         \<and> (\<forall>v \<in> set pre.
               vehicle_type v = req_vehicle_type request \<and> status v \<notin> {Responding, Handling} \<longrightarrow>
               euclid (current_location chosen) (to_proj (destination_lon request, destination_lat request))
                 < euclid (current_location v) (to_proj (destination_lon request, destination_lat request)))
         \<and> (\<forall>r c1. api_dispatch_vehicle to_proj sp now c request = (Inr r, c1) \<longrightarrow>
               resp_vehicle_id r = vehicle_id chosen)"
proof -
  define t where "t = req_vehicle_type request"
  define dest where "dest = to_proj (destination_lon request, destination_lat request)"
  define P where "P = (\<lambda>v::vehicle. vehicle_type v = t \<and> status v \<notin> {Responding, Handling})"
  define f where "f = (\<lambda>v::vehicle. euclid (current_location v) dest)"
  define av where "av = get_available_vehicles (simulator c) (Some t) None"
  from ex have tne: "t \<noteq> []" using vehicle_type_nonempty by (auto simp: t_def)
  have av_eq: "av = filter P (vehicles (simulator c))"
    unfolding av_def P_def by (rule available_typed[OF tne])
  from ex have "av \<noteq> []" unfolding av_eq P_def t_def by (auto simp: filter_empty_conv)
  then obtain b xs where bx: "av = b # xs" by (cases av) auto
  define m where "m = min_by f b xs"
  have cl: "closest_vehicle dest av = Inr m"
    by (simp add: closest_vehicle_def bx m_def f_def)
  from min_by_first_min[of b xs f] obtain pre' post' where
    M: "b # xs = pre' @ m # post'" "\<forall>x \<in> set (b # xs). f m \<le> f x" "\<forall>x \<in> set pre'. f m < f x"
    unfolding m_def by blast
  from M(1) have "filter P (vehicles (simulator c)) = pre' @ m # post'" using av_eq bx by simp
  from filter_eq_append_Cons_split[OF this] obtain pre post where
    S: "vehicles (simulator c) = pre @ m # post" "filter P pre = pre'" "P m" by blast
  have all_le: "\<forall>v \<in> set (vehicles (simulator c)). P v \<longrightarrow> f m \<le> f v"
  proof (intro ballI impI)
    fix v assume "v \<in> set (vehicles (simulator c))" "P v"
    then have "v \<in> set (b # xs)" using bx[symmetric] av_eq by simp
    then show "f m \<le> f v" using M(2) by blast
  qed
  have pre_lt: "\<forall>v \<in> set pre. P v \<longrightarrow> f m < f v"
  proof (intro ballI impI)
    fix v assume "v \<in> set pre" "P v"
    then have "v \<in> set pre'" using S(2) by auto
    then show "f m < f v" using M(3) by blast
  qed
  have api: "\<forall>r c1. api_dispatch_vehicle to_proj sp now c request = (Inr r, c1) \<longrightarrow>
               resp_vehicle_id r = vehicle_id m"
    using api_success_vehicle[of to_proj sp now c request _ _ m] cl
    unfolding av_def t_def dest_def by blast
  show ?thesis
    apply (rule exI[of _ m], rule exI[of _ pre], rule exI[of _ post])
    using cl S(1) S(3) all_le pre_lt api
    unfolding P_def f_def av_def t_def dest_def
    apply (intro conjI)
          apply assumption
         apply assumption
        apply simp
       apply simp
      apply assumption
     apply assumption
    apply assumption
    done
qed

theorem dispatch_selects_closest_witness:
  "closest_vehicle (0, 0)
       (get_available_vehicles (simulator example_fleet_controller) (Some ''ambulance'') None)
     = Inr (ambulance_at ''AMB-2'' (2, 0))
   \<and> fst (api_dispatch_vehicle id example_shortest_path 1 example_fleet_controller
            (example_request ''ambulance''))
     = Inr \<lparr>message = ''Closest ambulance (AMB-2) dispatched'', resp_vehicle_id = ''AMB-2'',
            route_length = 1, estimated_time = 0\<rparr>"
proof -
  have h: "\<exists>v \<in> set (vehicles (simulator example_fleet_controller)).
             vehicle_type v = req_vehicle_type (example_request ''ambulance'')
             \<and> status v \<notin> {Responding, Handling}"
    by (simp add: example_fleet_controller_def example_simulator_def example_request_def
          ambulance_at_def new_vehicle_def vehicle_type_def)
  have sel: "closest_vehicle (0, 0)
       (get_available_vehicles (simulator example_fleet_controller) (Some ''ambulance'') None)
     = Inr (ambulance_at ''AMB-2'' (2, 0))"
    by (simp add: example_fleet_controller_def example_simulator_def get_available_vehicles_def
          ambulance_at_def new_vehicle_def vehicle_type_def closest_vehicle_def euclid_def Let_def)
  from dispatch_selects_closest [OF h, of id example_shortest_path 1]
  obtain chosen where
    c: "closest_vehicle (id (destination_lon (example_request ''ambulance''),
                             destination_lat (example_request ''ambulance'')))
          (get_available_vehicles (simulator example_fleet_controller)
             (Some (req_vehicle_type (example_request ''ambulance''))) None) = Inr chosen"
    and r: "\<forall>r c1. api_dispatch_vehicle id example_shortest_path 1 example_fleet_controller
                     (example_request ''ambulance'') = (Inr r, c1) \<longrightarrow>
                   resp_vehicle_id r = vehicle_id chosen"
    by blast
  from c sel have chosen: "chosen = ambulance_at ''AMB-2'' (2, 0)"
    by (simp add: example_request_def)
  have "fst (api_dispatch_vehicle id example_shortest_path 1 example_fleet_controller
            (example_request ''ambulance''))
     = Inr \<lparr>message = ''Closest ambulance (AMB-2) dispatched'', resp_vehicle_id = ''AMB-2'',
            route_length = 1, estimated_time = 0\<rparr>"
    by (simp add: api_dispatch_vehicle_def example_request_def sel Let_def
          example_fleet_controller_def example_simulator_def get_available_vehicles_def
          ambulance_at_def new_vehicle_def vehicle_type_def closest_vehicle_def euclid_def
          find_nearest_node_def example_graph_def example_shortest_path_def
          dispatch_vehicle_def get_vehicle_by_id_def start_response_def update_route_geometry_def
          node_position_def store_vehicle_def vehicle_index_def capture_status_def)
  with sel chosen show ?thesis by simp
qed

subsection \<open>Dispatching one vehicle through the controller\<close>

lemma geometry_of_nodes_ok:
  "\<forall>n \<in> set ns. \<exists>p. node_position g n = Inr p \<Longrightarrow>
   \<exists>geom. geometry_of_nodes g ns acc = (None, acc @ geom)
          \<and> map (node_position g) ns = map Inr geom"
proof (induction ns arbitrary: acc)
  case Nil
  then show ?case by simp
next
  case (Cons n ns)
  then obtain p where p: "node_position g n = Inr p" by auto
  from Cons obtain geom where
    "geometry_of_nodes g ns (acc @ [p]) = (None, (acc @ [p]) @ geom)"
    "map (node_position g) ns = map Inr geom" by fastforce
  then have "geometry_of_nodes g (n # ns) acc = (None, acc @ (p # geom))
      \<and> map (node_position g) (n # ns) = map Inr (p # geom)"
    using p by simp
  then show ?case by blast
qed

lemma start_response_fields:
  "vehicle_id (snd (start_response v dest route g)) = vehicle_id v"
  "status (snd (start_response v dest route g)) = Responding"
  "route_nodes (snd (start_response v dest route g)) = route"
  "current_speed (snd (start_response v dest route g)) = max_speed v"
  "route_index (snd (start_response v dest route g)) = 0"
  "destination (snd (start_response v dest route g)) = Some dest"
  "current_location (snd (start_response v dest route g)) = current_location v"
  by (simp_all add: start_response_def update_route_geometry_def split: prod.splits)

lemma start_response_ok:
  assumes "\<forall>n \<in> set route. \<exists>p. node_position g n = Inr p"
  shows "\<exists>geom. start_response v dest route g
           = (None, v\<lparr>status := Responding, destination := Some dest, route_nodes := route,
                      route_index := 0, current_speed := max_speed v, route_geometry := geom\<rparr>)
         \<and> map (node_position g) route = map Inr geom"
proof -
  from geometry_of_nodes_ok[OF assms, of "[]"] obtain geom where
    "geometry_of_nodes g route [] = (None, geom)" "map (node_position g) route = map Inr geom"
    by auto
  then show ?thesis
    by (simp add: start_response_def update_route_geometry_def)
qed

lemma find_vehicle_index:
  "find (\<lambda>v. vehicle_id v = vid) vs = Some v \<Longrightarrow>
   vehicle_index vs vid < length vs \<and> vs ! vehicle_index vs vid = v"
  by (induction vs) (auto simp: vehicle_index_def split: if_splits)

lemma find_after_store:
  "find (\<lambda>v. vehicle_id v = vid) vs = Some v \<Longrightarrow> vehicle_id v1 = vid \<Longrightarrow>
   find (\<lambda>v. vehicle_id v = vid) (vs[vehicle_index vs vid := v1]) = Some v1"
  by (induction vs) (auto simp: vehicle_index_def split: if_splits)

lemma get_after_store:
  "get_vehicle_by_id (simulator c) vid = Some v \<Longrightarrow> vehicle_id v1 = vid \<Longrightarrow>
   get_vehicle_by_id (simulator (store_vehicle c vid v1)) vid = Some v1"
  by (simp add: get_vehicle_by_id_def store_vehicle_def find_after_store)

lemma simulator_capture_status [simp]: "simulator (capture_status c now) = simulator c"
  by (simp add: capture_status_def Let_def)

lemma get_vehicle_id: "get_vehicle_by_id sim vid = Some v \<Longrightarrow> vehicle_id v = vid"
  unfolding get_vehicle_by_id_def by (induction "vehicles sim") (auto simp: find_Some_iff)

text \<open>
  Claim C4. Let \<open>v\<close> be the vehicle that \<^verbatim>\<open>get_vehicle_by_id\<close> finds. If \<open>v\<close> is
  responding or handling, \<^verbatim>\<open>dispatch_vehicle\<close> raises the \<^verbatim>\<open>ValueError\<close>
  "is not available" and the controller, with every vehicle, is unchanged. In any other
  status the vehicle is responding afterwards, and for a route of the graph (every node
  of the route is a node of the graph with coordinates, as for every route the endpoint
  passes on from the shortest-path search) nothing is raised, the vehicle has been given
  the route and its maximal speed, and a snapshot has been appended to the history.
\<close>

theorem dispatch_vehicle_precondition:
  assumes found: "get_vehicle_by_id (simulator c) vid = Some v"
  shows "(status v \<in> {Responding, Handling} \<longrightarrow>
            dispatch_vehicle c vid dest route now
              = (Some (ValueError (''Vehicle '' @ vid @ '' is not available'')), c))
       \<and> (status v \<notin> {Responding, Handling} \<longrightarrow>
            (\<exists>v1. get_vehicle_by_id (simulator (snd (dispatch_vehicle c vid dest route now))) vid = Some v1
                  \<and> status v1 = Responding))
       \<and> (status v \<notin> {Responding, Handling}
            \<and> (\<forall>n \<in> set route. \<exists>p. node_position (graph (simulator c)) n = Inr p) \<longrightarrow>
            (\<exists>geom. map (node_position (graph (simulator c))) route = map Inr geom
               \<and> dispatch_vehicle c vid dest route now
                   = (None, capture_status
                        (store_vehicle c vid
                           (v\<lparr>status := Responding, destination := Some dest,
                              route_nodes := route, route_index := 0,
                              current_speed := max_speed v, route_geometry := geom\<rparr>)) now)))"
proof (intro conjI impI)
  assume "status v \<in> {Responding, Handling}"
  then show "dispatch_vehicle c vid dest route now
              = (Some (ValueError (''Vehicle '' @ vid @ '' is not available'')), c)"
    using found by (auto simp: dispatch_vehicle_def)
next
  assume free: "status v \<notin> {Responding, Handling}"
  let ?r = "start_response v dest route (graph (simulator c))"
  have id1: "vehicle_id (snd ?r) = vid"
    using start_response_fields(1) get_vehicle_id[OF found] by simp
  have "get_vehicle_by_id (simulator (snd (dispatch_vehicle c vid dest route now))) vid
          = Some (snd ?r)"
    using found free get_after_store[OF found id1]
    by (cases ?r; cases "fst ?r") (auto simp: dispatch_vehicle_def)
  then show "\<exists>v1. get_vehicle_by_id (simulator (snd (dispatch_vehicle c vid dest route now))) vid = Some v1
                  \<and> status v1 = Responding"
    using start_response_fields(2) by blast
next
  assume "status v \<notin> {Responding, Handling}
            \<and> (\<forall>n \<in> set route. \<exists>p. node_position (graph (simulator c)) n = Inr p)"
  then have free: "status v \<notin> {Responding, Handling}"
    and ok: "\<forall>n \<in> set route. \<exists>p. node_position (graph (simulator c)) n = Inr p" by blast+
  from start_response_ok[OF ok, of v dest] obtain geom where
    g: "start_response v dest route (graph (simulator c))
          = (None, v\<lparr>status := Responding, destination := Some dest, route_nodes := route,
                     route_index := 0, current_speed := max_speed v, route_geometry := geom\<rparr>)"
       "map (node_position (graph (simulator c))) route = map Inr geom" by blast
  have "dispatch_vehicle c vid dest route now
          = (None, capture_status
               (store_vehicle c vid
                  (v\<lparr>status := Responding, destination := Some dest,
                     route_nodes := route, route_index := 0,
                     current_speed := max_speed v, route_geometry := geom\<rparr>)) now)"
    using found free g(1) by (auto simp: dispatch_vehicle_def)
  with g(2) show "\<exists>geom. map (node_position (graph (simulator c))) route = map Inr geom
               \<and> dispatch_vehicle c vid dest route now
                   = (None, capture_status
                        (store_vehicle c vid
                           (v\<lparr>status := Responding, destination := Some dest,
                              route_nodes := route, route_index := 0,
                              current_speed := max_speed v, route_geometry := geom\<rparr>)) now)"
    by blast
qed

theorem dispatch_vehicle_precondition_witness:
  "get_vehicle_by_id (simulator example_mixed_controller) ''AMB-1'' = Some example_responding
   \<and> status example_responding = Responding
   \<and> dispatch_vehicle example_mixed_controller ''AMB-1'' (0, 0) [''J_1''] 1
       = (Some (ValueError ''Vehicle AMB-1 is not available''), example_mixed_controller)
   \<and> get_vehicle_by_id (simulator example_mixed_controller) ''AMB-2''
       = Some (ambulance_at ''AMB-2'' (2, 0))
   \<and> status (ambulance_at ''AMB-2'' (2, 0)) = Idle
   \<and> fst (dispatch_vehicle example_mixed_controller ''AMB-2'' (0, 0) [''J_1''] 1) = None
   \<and> map status (vehicles (simulator
        (snd (dispatch_vehicle example_mixed_controller ''AMB-2'' (0, 0) [''J_1''] 1))))
       = [Responding, Responding]"
proof -
  have f1: "get_vehicle_by_id (simulator example_mixed_controller) ''AMB-1'' = Some example_responding"
    by (simp add: example_mixed_controller_def example_simulator_def get_vehicle_by_id_def
          example_responding_def new_vehicle_def)
  have f2: "get_vehicle_by_id (simulator example_mixed_controller) ''AMB-2''
       = Some (ambulance_at ''AMB-2'' (2, 0))"
    by (simp add: example_mixed_controller_def example_simulator_def get_vehicle_by_id_def
          example_responding_def ambulance_at_def new_vehicle_def)
  have s1: "status example_responding = Responding"
    by (simp add: example_responding_def)
  have s2: "status (ambulance_at ''AMB-2'' (2, 0)) = Idle"
    by (simp add: ambulance_at_def new_vehicle_def)
  have nodes: "\<forall>n \<in> set [''J_1'']. \<exists>p. node_position (graph (simulator example_mixed_controller)) n = Inr p"
    by (simp add: example_mixed_controller_def example_simulator_def example_graph_def
          node_position_def)
  from dispatch_vehicle_precondition [OF f1, of "(0, 0)" "[''J_1'']" 1] s1
  have busy: "dispatch_vehicle example_mixed_controller ''AMB-1'' (0, 0) [''J_1''] 1
       = (Some (ValueError ''Vehicle AMB-1 is not available''), example_mixed_controller)"
    by simp
  from dispatch_vehicle_precondition [OF f2, of "(0, 0)" "[''J_1'']" 1] s2 nodes
  obtain geom where
    d: "dispatch_vehicle example_mixed_controller ''AMB-2'' (0, 0) [''J_1''] 1
          = (None, capture_status
               (store_vehicle example_mixed_controller ''AMB-2''
                  ((ambulance_at ''AMB-2'' (2, 0))
                     \<lparr>status := Responding, destination := Some (0, 0),
                      route_nodes := [''J_1''], route_index := 0,
                      current_speed := max_speed (ambulance_at ''AMB-2'' (2, 0)),
                      route_geometry := geom\<rparr>)) 1)"
    by auto
  have "map status (vehicles (simulator
        (snd (dispatch_vehicle example_mixed_controller ''AMB-2'' (0, 0) [''J_1''] 1))))
       = [Responding, Responding]"
    unfolding d
    by (simp add: store_vehicle_def vehicle_index_def example_mixed_controller_def
          example_simulator_def example_responding_def ambulance_at_def new_vehicle_def)
  with f1 f2 s1 s2 busy d show ?thesis by simp
qed

subsection \<open>Dispatch on a fully busy fleet\<close>

lemma available_empty:
  "(\<forall>v\<in>set (vehicles sim). (t = [] \<or> vehicle_type v = t) \<longrightarrow> status v \<in> {Responding, Handling})
   \<Longrightarrow> get_available_vehicles sim (Some t) None = []"
  by (auto simp: get_available_vehicles_def Let_def filter_empty_conv)

text \<open>
  Claim C5, as amended. When no vehicle passes the availability filter of the endpoint,
  that is, when every vehicle of the requested type (every vehicle at all, if the
  requested type is the empty string, for which \<^verbatim>\<open>get_available_vehicles\<close> skips the
  type filter) is responding or handling, the endpoint answers with
  \<^verbatim>\<open>HTTPException\<close> 404 and the controller, the simulator and every vehicle are
  unchanged.
\<close>

theorem dispatch_fully_busy:
  assumes "\<forall>v\<in>set (vehicles (simulator c)).
             (req_vehicle_type request = [] \<or> vehicle_type v = req_vehicle_type request) \<longrightarrow>
             status v \<in> {Responding, Handling}"
  shows "api_dispatch_vehicle to_proj sp now c request = (Inl (HTTPException 404), c)"
  using available_empty[OF assms] by (simp add: api_dispatch_vehicle_def Let_def)


theorem dispatch_fully_busy_witness:
  "map vehicle_type (vehicles (simulator example_busy_controller)) = [''ambulance'']
   \<and> map status (vehicles (simulator example_busy_controller)) = [Responding]
   \<and> api_dispatch_vehicle id example_shortest_path 1 example_busy_controller
        (example_request ''ambulance'')
       = (Inl (HTTPException 404), example_busy_controller)"
proof -
  have h: "\<forall>v\<in>set (vehicles (simulator example_busy_controller)).
             (req_vehicle_type (example_request ''ambulance'') = []
              \<or> vehicle_type v = req_vehicle_type (example_request ''ambulance'')) \<longrightarrow>
             status v \<in> {Responding, Handling}"
    by (simp add: example_busy_controller_def example_simulator_def example_responding_def)
  from dispatch_fully_busy [OF h, of id example_shortest_path 1]
  show ?thesis
    by (simp add: example_busy_controller_def example_simulator_def example_responding_def
          new_vehicle_def vehicle_type_def)
qed

text \<open>The claim as stated fails for the empty type string: no vehicle has that type, so
  every vehicle of the requested type is busy, yet the filter is skipped and the nearest
  idle ambulance is dispatched.\<close>

theorem dispatch_empty_type_counterexample:
  "filter (\<lambda>v. vehicle_type v = []) (vehicles (simulator example_fleet_controller)) = []
   \<and> fst (api_dispatch_vehicle id example_shortest_path 1 example_fleet_controller
            (example_request []))
       = Inr \<lparr>message = ''Closest  (AMB-2) dispatched'', resp_vehicle_id = ''AMB-2'',
              route_length = 1, estimated_time = 0\<rparr>
   \<and> map status (vehicles (simulator (snd
        (api_dispatch_vehicle id example_shortest_path 1 example_fleet_controller
            (example_request [])))))
       = [Idle, Responding, Idle]"
  by (simp add: api_dispatch_vehicle_def example_request_def Let_def
        example_fleet_controller_def example_simulator_def get_available_vehicles_def
        ambulance_at_def new_vehicle_def vehicle_type_def closest_vehicle_def euclid_def
        find_nearest_node_def example_graph_def example_shortest_path_def
        dispatch_vehicle_def get_vehicle_by_id_def start_response_def update_route_geometry_def
        node_position_def store_vehicle_def vehicle_index_def capture_status_def)

section \<open>Properties of the road graph build\<close>

subsection \<open>The batches cover the roads in order\<close>

lemma concat_take_drop_blocks:
  "concat (map (\<lambda>k. take b (drop (k * b) xs)) [0 ..< m]) = take (m * b) xs"
proof (induction m)
  case 0
  show ?case by simp
next
  case (Suc m)
  have "take (m * b + b) xs = take (m * b) xs @ take b (drop (m * b) xs)"
    by (rule take_add)
  with Suc show ?case by (simp add: add.commute)
qed

lemma batch_slice:
  "take (min (s + b) (length xs) - s) (drop s xs) = take b (drop s xs)"
  by (cases "s + b \<le> length xs") (simp_all add: min_def)

lemma concat_road_batches: "concat (road_batches roads) = roads"
proof -
  have cover: "length roads \<le> (length roads + (batch_size - 1)) div batch_size * batch_size"
    unfolding batch_size_def by simp
  have "road_batches roads
          = map (\<lambda>k. take batch_size (drop (k * batch_size) roads))
              [0 ..< (length roads + (batch_size - 1)) div batch_size]"
    by (simp add: road_batches_def batch_slice comp_def)
  then show ?thesis
    using cover by (simp add: concat_take_drop_blocks)
qed

lemma foldl_batches: "foldl (\<lambda>st batch. foldl f st batch) st xss = foldl f st (concat xss)"
  by (induction xss arbitrary: st) simp_all

lemma create_road_network_graph_fold:
  "create_road_network_graph roads (j # js)
     = Inr (build_graph (foldl (process_road j js) (add_junctions (j # js)) roads))"
  by (simp add: create_road_network_graph_def Let_def foldl_batches concat_road_batches
        del: foldl_Cons)

lemma process_road_degenerate:
  "road_geometry r = LineString coords \<Longrightarrow> length coords < 2 \<Longrightarrow>
   process_road j js st (rid, r) = st"
  by (simp add: process_road_def)

lemma skip_degenerate:
  assumes "road_geometry r = LineString coords" "length coords < 2"
  shows "create_road_network_graph (pre @ (rid, r) # post) junctions
           = create_road_network_graph (pre @ post) junctions"
proof (cases junctions)
  case Nil
  then show ?thesis by (simp add: create_road_network_graph_def)
next
  case (Cons j js)
  then show ?thesis
    by (simp add: create_road_network_graph_fold process_road_degenerate[OF assms])
qed

subsection \<open>Edges keep well-formed attributes and known end points\<close>

lemma foldl_invariant:
  "P s \<Longrightarrow> (\<And>s x. P s \<Longrightarrow> x \<in> set xs \<Longrightarrow> P (f s x)) \<Longrightarrow> P (foldl f s xs)"
  by (induction xs arbitrary: s) simp_all

lemma has_coordinates_add_node:
  "has_coordinates (add_node g n a) m \<longleftrightarrow> m = n \<or> has_coordinates g m"
  by (auto simp: has_coordinates_def add_node_def update_conv')

lemma edges_add_node [simp]: "edges (add_node g n a) = edges g"
  by (simp add: add_node_def)

lemma add_edge_known_nodes:
  "has_coordinates g u \<Longrightarrow> has_coordinates g v \<Longrightarrow>
   add_edge g u v a = g\<lparr>edges := AList.update (u, v) a (edges g)\<rparr>"
  by (auto simp: add_edge_def ensure_node_def has_coordinates_def)

lemma has_coordinates_edges_update [simp]:
  "has_coordinates (g\<lparr>edges := es\<rparr>) n = has_coordinates g n"
  by (simp add: has_coordinates_def)

lemma set_update_cases:
  "e \<in> set (AList.update k v al) \<Longrightarrow> e = (k, v) \<or> e \<in> set al"
  by (induction al) (auto split: if_splits)

lemma speed_kph_of_pos: "speed_kph_of r > 0"
  by (simp add: speed_kph_of_def split: option.splits)

lemma speed_kph_of_eq:
  "speed_kph_of r = (case speed_limit r of None \<Rightarrow> 40 | Some s \<Rightarrow> if s > 0 then s else 40)"
  by (auto simp: speed_kph_of_def split: option.splits)

lemma segment_attrs_ok:
  assumes "(rid, r) \<in> set roads"
  shows "edge_attrs_ok roads (segment_attrs rid r coords road_nodes i)"
proof -
  have gen: "edge_attrs_ok roads
           \<lparr>road_id = rid, edge_length = l, speed = speed_kph_of r,
            travel_time = (l / 1000) / (speed_kph_of r / 60), geometry = geom\<rparr>" for l geom
  proof -
    have "l > 0 \<Longrightarrow> (l / 1000) / (speed_kph_of r / 60) > 0"
      using speed_kph_of_pos[of r] by simp
    moreover have "\<exists>row \<in> set roads. rid = fst row
        \<and> speed_kph_of r = (case speed_limit (snd row) of None \<Rightarrow> 40 | Some s \<Rightarrow> if s > 0 then s else 40)"
      using assms speed_kph_of_eq[of r] by force
    ultimately show ?thesis by (simp add: edge_attrs_ok_def)
  qed
  show ?thesis unfolding segment_attrs_def Let_def by (rule gen)
qed

lemma edges_inv_put:
  assumes "edges_inv roads g" "has_coordinates g u" "has_coordinates g v" "edge_attrs_ok roads a"
  shows "edges_inv roads (g\<lparr>edges := AList.update (u, v) a (edges g)\<rparr>)"
  unfolding edges_inv_def
proof
  fix e assume "e \<in> set (edges (g\<lparr>edges := AList.update (u, v) a (edges g)\<rparr>))"
  then have "e = ((u, v), a) \<or> e \<in> set (edges g)" using set_update_cases by fastforce
  then show "has_coordinates (g\<lparr>edges := AList.update (u, v) a (edges g)\<rparr>) (fst (fst e))
       \<and> has_coordinates (g\<lparr>edges := AList.update (u, v) a (edges g)\<rparr>) (snd (fst e))
       \<and> edge_attrs_ok roads (snd e)"
    using assms by (auto simp: edges_inv_def)
qed

lemma map_of_edges_add_edge:
  "map_of (edges (add_edge g u v a)) = (map_of (edges g))((u, v) \<mapsto> a)"
  by (simp add: add_edge_def update_conv')

text \<open>With distinct end points, a segment is one \<open>add_edge\<close>, or two with the same
  attributes.\<close>

lemma add_segment_distinct:
  assumes "fst (road_nodes ! i) \<noteq> fst (road_nodes ! (i + 1))"
  shows "add_segment rid r coords road_nodes g i
         = (if traffic_direction r = ''Both directions''
            then add_edge (add_edge g (fst (road_nodes ! i)) (fst (road_nodes ! (i + 1)))
                             (segment_attrs rid r coords road_nodes i))
                   (fst (road_nodes ! (i + 1))) (fst (road_nodes ! i))
                   (segment_attrs rid r coords road_nodes i)
            else add_edge g (fst (road_nodes ! i)) (fst (road_nodes ! (i + 1)))
                   (segment_attrs rid r coords road_nodes i))"
  using assms by (simp add: add_segment_def Let_def map_of_edges_add_edge)

lemma add_segment_same:
  "fst (road_nodes ! i) = fst (road_nodes ! (i + 1)) \<Longrightarrow>
   add_segment rid r coords road_nodes g i = g"
  by (simp add: add_segment_def Let_def)

lemma add_segment_edges_inv:
  assumes inv: "edges_inv roads g" and row: "(rid, r) \<in> set roads"
    and s: "has_coordinates g (fst (road_nodes ! i))"
    and e: "has_coordinates g (fst (road_nodes ! (i + 1)))"
  shows "edges_inv roads (add_segment rid r coords road_nodes g i)
       \<and> nodes (add_segment rid r coords road_nodes g i) = nodes g"
proof (cases "fst (road_nodes ! i) = fst (road_nodes ! (i + 1))")
  case True
  then show ?thesis using inv by (simp add: add_segment_same)
next
  case False
  let ?s = "fst (road_nodes ! i)" and ?e = "fst (road_nodes ! (i + 1))"
  let ?a = "segment_attrs rid r coords road_nodes i"
  have a: "edge_attrs_ok roads ?a" by (rule segment_attrs_ok[OF row])
  have eq1: "add_edge g ?s ?e ?a = g\<lparr>edges := AList.update (?s, ?e) ?a (edges g)\<rparr>"
    by (rule add_edge_known_nodes[OF s e])
  have g1: "edges_inv roads (add_edge g ?s ?e ?a)"
    unfolding eq1 by (rule edges_inv_put[OF inv s e a])
  have s1: "has_coordinates (add_edge g ?s ?e ?a) ?s" and e1: "has_coordinates (add_edge g ?s ?e ?a) ?e"
    unfolding eq1 using s e by simp_all
  have eq2: "add_edge (add_edge g ?s ?e ?a) ?e ?s ?a
               = (add_edge g ?s ?e ?a)\<lparr>edges := AList.update (?e, ?s) ?a (edges (add_edge g ?s ?e ?a))\<rparr>"
    by (rule add_edge_known_nodes[OF e1 s1])
  have g2: "edges_inv roads (add_edge (add_edge g ?s ?e ?a) ?e ?s ?a)"
    unfolding eq2 by (rule edges_inv_put[OF g1 e1 s1 a])
  have n1: "nodes (add_edge g ?s ?e ?a) = nodes g"
    unfolding eq1 by simp
  have n2: "nodes (add_edge (add_edge g ?s ?e ?a) ?e ?s ?a) = nodes g"
    unfolding eq2 using n1 by simp
  show ?thesis unfolding add_segment_distinct[OF False] using g1 g2 n1 n2 by simp
qed

lemma has_coordinates_nodes_cong:
  "nodes g' = nodes g \<Longrightarrow> has_coordinates g' n = has_coordinates g n"
  by (simp add: has_coordinates_def)

lemma segments_edges_inv:
  assumes inv: "edges_inv roads g" and row: "(rid, r) \<in> set roads"
    and known: "\<forall>x \<in> set road_nodes. has_coordinates g (fst x)"
    and idx: "\<forall>i \<in> set is. i + 1 < length road_nodes"
  shows "edges_inv roads (foldl (add_segment rid r coords road_nodes) g is)
       \<and> nodes (foldl (add_segment rid r coords road_nodes) g is) = nodes g"
  using inv known idx
proof (induction "is" arbitrary: g)
  case Nil
  then show ?case by simp
next
  case (Cons i "is")
  let ?g1 = "add_segment rid r coords road_nodes g i"
  from Cons.prems have i: "i + 1 < length road_nodes" by simp
  then have s: "has_coordinates g (fst (road_nodes ! i))"
    and e: "has_coordinates g (fst (road_nodes ! (i + 1)))"
    using Cons.prems(2) by auto
  from add_segment_edges_inv[OF Cons.prems(1) row s e]
  have g1: "edges_inv roads ?g1" and n1: "nodes ?g1 = nodes g" by blast+
  have k1: "\<forall>x \<in> set road_nodes. has_coordinates ?g1 (fst x)"
    using Cons.prems(2) has_coordinates_nodes_cong[OF n1] by simp
  from Cons.IH[OF g1 k1] Cons.prems(3) n1 show ?case by simp
qed

lemma edges_inv_add_node:
  "edges_inv roads g \<Longrightarrow> edges_inv roads (add_node g n a)"
  by (auto simp: edges_inv_def has_coordinates_add_node)

lemma add_junction_inv:
  "state_inv roads junctions st \<Longrightarrow> state_inv roads junctions (add_junction st jn)"
  by (auto simp: state_inv_def add_junction_def Let_def has_coordinates_add_node edges_inv_add_node)

lemma add_junction_coordinates:
  "has_coordinates (build_graph (add_junction st jn)) (''J_'' @ junction_node_id jn)"
  by (simp add: add_junction_def Let_def has_coordinates_add_node)

lemma add_junction_keeps:
  "has_coordinates (build_graph st) n \<Longrightarrow> has_coordinates (build_graph (add_junction st jn)) n"
  by (simp add: add_junction_def Let_def has_coordinates_add_node)

lemma foldl_add_junction_inv:
  assumes "(\<forall>k n. junction_points st k = Some n \<longrightarrow> has_coordinates (build_graph st) n)"
    and "edges_inv roads (build_graph st)"
  shows "state_inv roads junctions' (foldl add_junction st junctions)
         \<longleftrightarrow> (\<forall>jn \<in> set junctions'. has_coordinates (build_graph (foldl add_junction st junctions))
                 (''J_'' @ junction_node_id jn))"
  using assms
proof (induction junctions arbitrary: st)
  case Nil
  then show ?case by (simp add: state_inv_def)
next
  case (Cons jn jns)
  have "(\<forall>k n. junction_points (add_junction st jn) k = Some n \<longrightarrow>
           has_coordinates (build_graph (add_junction st jn)) n)"
    using Cons.prems(1) by (auto simp: add_junction_def Let_def has_coordinates_add_node)
  moreover have "edges_inv roads (build_graph (add_junction st jn))"
    using Cons.prems(2) by (simp add: add_junction_def Let_def edges_inv_add_node)
  ultimately show ?case using Cons.IH by simp
qed

lemma foldl_add_junction_keeps:
  "has_coordinates (build_graph st) n \<Longrightarrow>
   has_coordinates (build_graph (foldl add_junction st junctions)) n"
  by (induction junctions arbitrary: st) (simp_all add: add_junction_keeps)

lemma foldl_add_junction_all:
  "\<forall>jn \<in> set junctions.
     has_coordinates (build_graph (foldl add_junction st junctions)) (''J_'' @ junction_node_id jn)"
proof (induction junctions arbitrary: st)
  case Nil
  show ?case by simp
next
  case (Cons jn jns)
  have "has_coordinates (build_graph (foldl add_junction (add_junction st jn) jns))
          (''J_'' @ junction_node_id jn)"
    by (rule foldl_add_junction_keeps[OF add_junction_coordinates])
  with Cons.IH[of "add_junction st jn"] show ?case by simp
qed

lemma add_junctions_inv: "state_inv roads junctions (add_junctions junctions)"
proof -
  let ?st0 = "\<lparr>build_graph = \<lparr>nodes = [], edges = []\<rparr>,
               junction_points = Map.empty, node_counter = 0\<rparr>"
  have "state_inv roads junctions (foldl add_junction ?st0 junctions)
         \<longleftrightarrow> (\<forall>jn \<in> set junctions. has_coordinates (build_graph (foldl add_junction ?st0 junctions))
                 (''J_'' @ junction_node_id jn))"
    by (rule foldl_add_junction_inv) (simp_all add: edges_inv_def)
  then show ?thesis
    unfolding add_junctions_def using foldl_add_junction_all by blast
qed

lemma nearest_index_bound:
  "snd best < i \<Longrightarrow> snd (nearest_index qs p i best) < i + length qs"
proof (induction qs arbitrary: i best)
  case Nil
  then show ?case by simp
next
  case (Cons q qs)
  let ?best = "if euclid p q < fst best then (euclid p q, i) else best"
  have "snd ?best < i + 1" using Cons.prems by simp
  from Cons.IH[OF this] show ?case by simp
qed

lemma kd_query_bound: "snd (kd_query j js p) < length (j # js)"
  using nearest_index_bound[of "(euclid p (junction_location j), 0)" 1 "map junction_location js" p]
  by (simp add: kd_query_def)

lemma visit_coord_inv:
  assumes "walk_inv roads (j # js) acc"
  shows "walk_inv roads (j # js) (visit_coord j js n acc ic)"
proof -
  obtain st rn where acc: "acc = (st, rn)" by (cases acc)
  obtain i x y where ic: "ic = (i, (x, y))" by (cases ic) auto
  from assms acc have st: "state_inv roads (j # js) st"
    and rn: "\<forall>x \<in> set rn. has_coordinates (build_graph st) (fst x)"
    by (simp_all add: walk_inv_def)
  show ?thesis
  proof (cases "junction_points st (round2 x, round2 y)")
    case (Some node_id)
    then have "has_coordinates (build_graph st) node_id" using st by (auto simp: state_inv_def)
    then show ?thesis using Some st rn
      by (simp add: visit_coord_def acc ic Let_def walk_inv_def)
  next
    case None
    show ?thesis
    proof (cases "fst (kd_query j js (x, y)) \<le> junction_tolerance")
      case True
      have "(j # js) ! snd (kd_query j js (x, y)) \<in> set (j # js)"
        using kd_query_bound[of j js "(x, y)"] nth_mem by blast
      then have "has_coordinates (build_graph st)
                   (''J_'' @ junction_node_id ((j # js) ! snd (kd_query j js (x, y))))"
        using st unfolding state_inv_def by blast
      then show ?thesis using None True st rn
        by (simp add: visit_coord_def acc ic Let_def walk_inv_def)
    next
      case False
      show ?thesis
      proof (cases "(i = 0 \<or> i = n - 1) \<or> i mod max 1 (n div 10) = 0")
        case skip: False
        then show ?thesis using None False st rn
          by (simp add: visit_coord_def acc ic Let_def walk_inv_def)
      next
        case True
        let ?nid = "''R_'' @ str_nat (node_counter st)"
        let ?st1 = "st\<lparr>node_counter := node_counter st + 1,
                       build_graph := add_node (build_graph st) ?nid
                          \<lparr>node_x = x, node_y = y, node_type = ''road_vertex''\<rparr>,
                       junction_points := (junction_points st)((round2 x, round2 y) \<mapsto> ?nid)\<rparr>"
        have res: "visit_coord j js n acc ic = (?st1, rn @ [(?nid, (x, y))])"
          using None False True by (simp add: visit_coord_def acc ic Let_def)
        have "state_inv roads (j # js) ?st1"
          using st by (auto simp: state_inv_def has_coordinates_add_node edges_inv_add_node)
        moreover have "\<forall>x \<in> set (rn @ [(?nid, (x, y))]). has_coordinates (build_graph ?st1) (fst x)"
          using rn by (auto simp: has_coordinates_add_node)
        ultimately show ?thesis unfolding res walk_inv_def by simp
      qed
    qed
  qed
qed

lemma process_road_inv:
  assumes st: "state_inv roads (j # js) st" and row: "row \<in> set roads"
  shows "state_inv roads (j # js) (process_road j js st row)"
proof (cases "road_geometry (snd row)")
  case OtherGeometry
  then show ?thesis using st by (simp add: process_road_def)
next
  case (LineString coords)
  show ?thesis
  proof (cases "length coords < 2")
    case True
    then show ?thesis using st LineString by (simp add: process_road_def)
  next
    case False
    define acc where "acc = foldl (visit_coord j js (length coords)) (st, []) (enumerate 0 coords)"
    have w: "walk_inv roads (j # js) acc"
      unfolding acc_def
    proof (rule foldl_invariant)
      show "walk_inv roads (j # js) (st, [])" by (simp add: walk_inv_def st)
    next
      fix s x assume "walk_inv roads (j # js) s"
      then show "walk_inv roads (j # js) (visit_coord j js (length coords) s x)"
        by (rule visit_coord_inv)
    qed
    then have st1: "state_inv roads (j # js) (fst acc)"
      and known: "\<forall>x \<in> set (snd acc). has_coordinates (build_graph (fst acc)) (fst x)"
      by (simp_all add: walk_inv_def)
    show ?thesis
    proof (cases "length (snd acc) < 2")
      case True
      then show ?thesis using st1 LineString False
        by (simp add: process_road_def Let_def acc_def[symmetric])
    next
      case long: False
      define g2 where "g2 = foldl (add_segment (fst row) (snd row) coords (snd acc))
                             (build_graph (fst acc)) [0 ..< length (snd acc) - 1]"
      have row': "(fst row, snd row) \<in> set roads" using row by simp
      have e1: "edges_inv roads (build_graph (fst acc))" using st1 by (simp add: state_inv_def)
      have idx: "\<forall>i \<in> set [0 ..< length (snd acc) - 1]. i + 1 < length (snd acc)" by auto
      from segments_edges_inv[OF e1 row' known idx, of coords]
      have g2: "edges_inv roads g2" and n2: "nodes g2 = nodes (build_graph (fst acc))"
        unfolding g2_def by blast+
      have res: "process_road j js st row = (fst acc)\<lparr>build_graph := g2\<rparr>"
        using LineString False long
        by (simp add: process_road_def Let_def acc_def[symmetric] g2_def)
      show ?thesis
        unfolding res using st1 g2 has_coordinates_nodes_cong[OF n2]
        by (simp add: state_inv_def)
    qed
  qed
qed

lemma build_edges_inv:
  assumes "create_road_network_graph roads junctions = Inr g"
  shows "edges_inv roads g"
proof (cases junctions)
  case Nil
  with assms show ?thesis by (simp add: create_road_network_graph_def)
next
  case (Cons j js)
  have "state_inv roads (j # js) (foldl (process_road j js) (add_junctions (j # js)) roads)"
  proof (rule foldl_invariant)
    show "state_inv roads (j # js) (add_junctions (j # js))" by (rule add_junctions_inv)
  next
    fix s x assume "state_inv roads (j # js) s" "x \<in> set roads"
    then show "state_inv roads (j # js) (process_road j js s x)" by (rule process_road_inv)
  qed
  then show ?thesis
    using assms Cons by (simp add: create_road_network_graph_fold state_inv_def del: foldl_Cons)
qed

subsection \<open>Mirror edges of two-way roads\<close>

lemma mirror_inv_two_way:
  assumes "mirror_inv roads m"
  shows "mirror_inv roads (m((s, e) \<mapsto> A, (e, s) \<mapsto> A))"
  unfolding mirror_inv_def
proof (intro allI impI)
  fix u v a
  assume h: "(m((s, e) \<mapsto> A, (e, s) \<mapsto> A)) (u, v) = Some a \<and> all_two_way roads (road_id a)"
  show "\<exists>b. (m((s, e) \<mapsto> A, (e, s) \<mapsto> A)) (v, u) = Some b \<and> (road_id b = road_id a \<longrightarrow> b = a)"
  proof (cases "(u, v) = (s, e) \<or> (u, v) = (e, s)")
    case True
    then show ?thesis using h by auto
  next
    case False
    then have "m (u, v) = Some a" and "(v, u) \<noteq> (s, e)" and "(v, u) \<noteq> (e, s)" using h by auto
    then show ?thesis using assms h unfolding mirror_inv_def by auto
  qed
qed

lemma mirror_inv_one_way:
  assumes "mirror_inv roads m" and "\<not> all_two_way roads (road_id A)"
  shows "mirror_inv roads (m((s, e) \<mapsto> A))"
  unfolding mirror_inv_def
proof (intro allI impI)
  fix u v a
  assume h: "(m((s, e) \<mapsto> A)) (u, v) = Some a \<and> all_two_way roads (road_id a)"
  then have ne: "(u, v) \<noteq> (s, e)" using assms(2) by (auto split: if_splits)
  then have old: "m (u, v) = Some a" using h by (auto split: if_splits)
  from assms(1) old h obtain b where b: "m (v, u) = Some b" "road_id b = road_id a \<longrightarrow> b = a"
    unfolding mirror_inv_def by blast
  show "\<exists>b. (m((s, e) \<mapsto> A)) (v, u) = Some b \<and> (road_id b = road_id a \<longrightarrow> b = a)"
  proof (cases "(v, u) = (s, e)")
    case True
    then show ?thesis using h assms(2) by auto
  next
    case False
    then show ?thesis using b by (auto split: if_splits)
  qed
qed

lemma road_id_segment_attrs [simp]: "road_id (segment_attrs rid r coords road_nodes i) = rid"
  by (simp add: segment_attrs_def Let_def)

lemma add_segment_mirror:
  assumes inv: "mirror_inv roads (map_of (edges g))" and row: "(rid, r) \<in> set roads"
  shows "mirror_inv roads (map_of (edges (add_segment rid r coords road_nodes g i)))"
proof (cases "fst (road_nodes ! i) = fst (road_nodes ! (i + 1))")
  case True
  then show ?thesis using inv by (simp add: add_segment_same)
next
  case False
  show ?thesis
  proof (cases "traffic_direction r = ''Both directions''")
    case True
    then show ?thesis
      unfolding add_segment_distinct[OF False]
      using mirror_inv_two_way[OF inv] by (simp add: map_of_edges_add_edge)
  next
    case one: False
    then have "\<not> all_two_way roads (road_id (segment_attrs rid r coords road_nodes i))"
      using row by (force simp: all_two_way_def)
    from mirror_inv_one_way[OF inv this] one show ?thesis
      unfolding add_segment_distinct[OF False] by (simp add: map_of_edges_add_edge)
  qed
qed

lemma visit_coord_edges:
  "edges (build_graph (fst (visit_coord j js n acc ic))) = edges (build_graph (fst acc))"
  by (simp add: visit_coord_def Let_def split: option.splits)

lemma walk_edges:
  "edges (build_graph (fst (foldl (visit_coord j js n) acc ics))) = edges (build_graph (fst acc))"
  by (induction ics arbitrary: acc) (simp_all add: visit_coord_edges)

lemma process_road_mirror:
  assumes inv: "mirror_inv roads (map_of (edges (build_graph st)))" and row: "row \<in> set roads"
  shows "mirror_inv roads (map_of (edges (build_graph (process_road j js st row))))"
proof (cases "road_geometry (snd row)")
  case OtherGeometry
  then show ?thesis using inv by (simp add: process_road_def)
next
  case (LineString coords)
  define acc where "acc = foldl (visit_coord j js (length coords)) (st, []) (enumerate 0 coords)"
  have e: "edges (build_graph (fst acc)) = edges (build_graph st)"
    unfolding acc_def by (simp add: walk_edges)
  have row': "(fst row, snd row) \<in> set roads" using row by simp
  have "mirror_inv roads (map_of (edges
          (foldl (add_segment (fst row) (snd row) coords (snd acc)) (build_graph (fst acc)) is)))" for "is"
  proof (rule foldl_invariant)
    show "mirror_inv roads (map_of (edges (build_graph (fst acc))))" using inv e by simp
  next
    fix g :: road_graph and i :: nat
    assume "mirror_inv roads (map_of (edges g))"
    then show "mirror_inv roads (map_of (edges (add_segment (fst row) (snd row) coords (snd acc) g i)))"
      by (rule add_segment_mirror[OF _ row'])
  qed
  then show ?thesis
    using inv e LineString by (simp add: process_road_def Let_def acc_def[symmetric])
qed

lemma add_junctions_edges: "edges (build_graph (add_junctions junctions)) = []"
proof -
  have "edges (build_graph (foldl add_junction st junctions)) = edges (build_graph st)" for st
    by (induction junctions arbitrary: st) (simp_all add: add_junction_def Let_def)
  then show ?thesis by (simp add: add_junctions_def)
qed

lemma build_mirror_inv:
  assumes "create_road_network_graph roads junctions = Inr g"
  shows "mirror_inv roads (map_of (edges g))"
proof (cases junctions)
  case Nil
  with assms show ?thesis by (simp add: create_road_network_graph_def)
next
  case (Cons j js)
  have "mirror_inv roads (map_of (edges (build_graph
          (foldl (process_road j js) (add_junctions (j # js)) roads))))"
  proof (rule foldl_invariant[where P = "\<lambda>st. mirror_inv roads (map_of (edges (build_graph st)))"])
    show "mirror_inv roads (map_of (edges (build_graph (add_junctions (j # js)))))"
      by (simp add: add_junctions_edges mirror_inv_def)
  next
    fix s :: build_state and x
    assume "mirror_inv roads (map_of (edges (build_graph s)))" "x \<in> set roads"
    then show "mirror_inv roads (map_of (edges (build_graph (process_road j js s x))))"
      by (rule process_road_mirror)
  qed
  then show ?thesis
    using assms Cons by (simp add: create_road_network_graph_fold del: foldl_Cons)
qed

subsection \<open>Evaluating the build on the example roads\<close>

lemmas build_eval =
  create_road_network_graph_def add_junctions_def add_junction_def add_node_def add_edge_def
  ensure_node_def round2_def road_batches_def batch_size_def process_road_def visit_coord_def
  add_segment_def segment_attrs_def speed_kph_of_def Let_def
  example_junctions_def two_way_road_def one_way_back_road_def degenerate_road_def
  junction_nodes_only_def single_junction_def single_node_graph_def
  two_way_graph_def overwritten_graph_def two_way_attrs_def one_way_back_attrs_def

lemma build_two_way_road:
  "create_road_network_graph [(1, two_way_road)] example_junctions = Inr two_way_graph"
  by (simp add: build_eval)

lemma has_coordinates_node_position:
  "has_coordinates g n \<longleftrightarrow> (\<exists>p. node_position g n = Inr p)"
  by (auto simp: has_coordinates_def node_position_def split: option.splits)

lemma has_coordinates_is_node: "has_coordinates g n \<Longrightarrow> n \<in> fst ` set (nodes g)"
  by (auto simp: has_coordinates_def dest: map_of_SomeD intro: rev_image_eqI)

subsection \<open>Claims about the built graph\<close>

text \<open>
  Claim C6. In a built graph every edge \<open>(u, v)\<close> with attributes \<open>a\<close> carries the id
  of a road of the input whose speed limit, when present and positive, is the edge's
  speed, the speed being 40 otherwise; its travel time is
  \<open>(length / 1000) / (speed / 60)\<close>; both end points are nodes of the graph (with
  coordinates); and the travel time is positive whenever the length is.
\<close>

theorem built_edges_well_formed:
  assumes "create_road_network_graph roads junctions = Inr g"
    and "map_of (edges g) (u, v) = Some a"
  shows "(\<exists>row \<in> set roads. road_id a = fst row
            \<and> speed a = (case speed_limit (snd row) of
                           None \<Rightarrow> 40
                         | Some s \<Rightarrow> if s > 0 then s else 40))
       \<and> travel_time a = (edge_length a / 1000) / (speed a / 60)
       \<and> u \<in> fst ` set (nodes g) \<and> v \<in> fst ` set (nodes g)
       \<and> (\<exists>p. node_position g u = Inr p) \<and> (\<exists>q. node_position g v = Inr q)
       \<and> (edge_length a > 0 \<longrightarrow> travel_time a > 0)"
proof -
  from assms(2) have mem: "((u, v), a) \<in> set (edges g)" by (rule map_of_SomeD)
  from build_edges_inv[OF assms(1)] mem
  have cu: "has_coordinates g u" and cv: "has_coordinates g v" and ok: "edge_attrs_ok roads a"
    unfolding edges_inv_def by force+
  from cu cv have "u \<in> fst ` set (nodes g)" "v \<in> fst ` set (nodes g)"
    "\<exists>p. node_position g u = Inr p" "\<exists>q. node_position g v = Inr q"
    using has_coordinates_is_node has_coordinates_node_position by blast+
  with ok show ?thesis unfolding edge_attrs_ok_def by blast
qed

theorem built_edges_well_formed_witness:
  "create_road_network_graph [(1, two_way_road)] example_junctions = Inr two_way_graph
   \<and> map_of (edges two_way_graph) (''J_a'', ''J_b'') = Some two_way_attrs
   \<and> speed_limit two_way_road = Some 50 \<and> speed two_way_attrs = 50
   \<and> travel_time two_way_attrs
       = (edge_length two_way_attrs / 1000) / (speed two_way_attrs / 60)
   \<and> node_position two_way_graph ''J_a'' = Inr (0, 0)
   \<and> node_position two_way_graph ''J_b'' = Inr (2, 0)
   \<and> 0 < edge_length two_way_attrs \<and> 0 < travel_time two_way_attrs"
proof -
  have look: "map_of (edges two_way_graph) (''J_a'', ''J_b'') = Some two_way_attrs"
    by (simp add: two_way_graph_def)
  from built_edges_well_formed [OF build_two_way_road look]
  have "travel_time two_way_attrs
       = (edge_length two_way_attrs / 1000) / (speed two_way_attrs / 60)"
    and "edge_length two_way_attrs > 0 \<longrightarrow> travel_time two_way_attrs > 0"
    by blast+
  then show ?thesis
    using build_two_way_road look
    by (simp add: two_way_attrs_def two_way_road_def two_way_graph_def junction_nodes_only_def
          node_position_def)
qed

text \<open>What the mirror step does when it runs: for a two-way road and two distinct end
  points, both directions are in the graph with the attributes of the segment.\<close>

lemma add_segment_two_way:
  assumes "traffic_direction r = ''Both directions''"
    and "fst (road_nodes ! i) \<noteq> fst (road_nodes ! (i + 1))"
  shows "map_of (edges (add_segment rid r coords road_nodes g i))
           (fst (road_nodes ! i), fst (road_nodes ! (i + 1)))
           = Some (segment_attrs rid r coords road_nodes i)
       \<and> map_of (edges (add_segment rid r coords road_nodes g i))
           (fst (road_nodes ! (i + 1)), fst (road_nodes ! i))
           = Some (segment_attrs rid r coords road_nodes i)"
  unfolding add_segment_distinct[OF assms(2)] using assms
  by (simp add: map_of_edges_add_edge)

text \<open>
  Claim C7, as amended. In a built graph, let \<open>(u, v)\<close> be an edge whose road id belongs
  to two-way roads only. Then the mirror edge \<open>(v, u)\<close> is in the graph, and it has the
  same length, speed and travel time (indeed the same attributes) whenever it carries
  the same road id. The graph keeps one edge per ordered pair of nodes, so a later road
  between the same two nodes replaces the attributes of the direction it writes.
\<close>

theorem two_way_edges_are_mirrored:
  assumes "create_road_network_graph roads junctions = Inr g"
    and "map_of (edges g) (u, v) = Some a"
    and "\<forall>row \<in> set roads. fst row = road_id a \<longrightarrow>
           traffic_direction (snd row) = ''Both directions''"
  shows "\<exists>b. map_of (edges g) (v, u) = Some b
           \<and> (road_id b = road_id a \<longrightarrow>
                 edge_length b = edge_length a \<and> speed b = speed a
                 \<and> travel_time b = travel_time a \<and> b = a)"
proof -
  from assms(3) have "all_two_way roads (road_id a)" by (simp add: all_two_way_def)
  with build_mirror_inv[OF assms(1)] assms(2)
  obtain b where "map_of (edges g) (v, u) = Some b" "road_id b = road_id a \<longrightarrow> b = a"
    unfolding mirror_inv_def by blast
  then show ?thesis by auto
qed

theorem two_way_edges_are_mirrored_witness:
  "create_road_network_graph [(1, two_way_road)] example_junctions = Inr two_way_graph
   \<and> map_of (edges two_way_graph) (''J_a'', ''J_b'') = Some two_way_attrs
   \<and> traffic_direction two_way_road = ''Both directions''
   \<and> map_of (edges two_way_graph) (''J_b'', ''J_a'') = Some two_way_attrs"
proof -
  have look: "map_of (edges two_way_graph) (''J_a'', ''J_b'') = Some two_way_attrs"
    by (simp add: two_way_graph_def)
  have two: "\<forall>row \<in> set [(1, two_way_road)]. fst row = road_id two_way_attrs \<longrightarrow>
           traffic_direction (snd row) = ''Both directions''"
    by (simp add: two_way_road_def)
  from two_way_edges_are_mirrored [OF build_two_way_road look two]
  obtain b where b: "map_of (edges two_way_graph) (''J_b'', ''J_a'') = Some b"
    and same: "road_id b = road_id two_way_attrs \<longrightarrow> b = two_way_attrs"
    by blast
  from b have "road_id b = road_id two_way_attrs"
    by (auto simp: two_way_graph_def)
  with b same have "map_of (edges two_way_graph) (''J_b'', ''J_a'') = Some two_way_attrs"
    by simp
  then show ?thesis
    using build_two_way_road look by (simp add: two_way_road_def)
qed

text \<open>The claim as stated fails when a later one-way road joins the same two junctions
  in the opposite direction: the forward edge of the two-way road keeps speed 50, the
  mirror edge now has the one-way road's speed 30.\<close>

theorem mirror_overwritten_counterexample:
  "traffic_direction two_way_road = ''Both directions''
   \<and> create_road_network_graph [(1, two_way_road), (2, one_way_back_road)] example_junctions
       = Inr overwritten_graph
   \<and> map_option road_id (map_of (edges overwritten_graph) (''J_a'', ''J_b'')) = Some 1
   \<and> map_option speed (map_of (edges overwritten_graph) (''J_a'', ''J_b'')) = Some 50
   \<and> map_option speed (map_of (edges overwritten_graph) (''J_b'', ''J_a'')) = Some 30"
  by (simp add: build_eval)

text \<open>
  Claim C8, as amended. A road whose geometry has fewer than two coordinates is skipped
  silently: the build returns, and prints, exactly what it returns and prints without
  that road (so the road adds no node and no edge, and nothing is raised or reported for
  it), and with at least one junction the build returns a graph.
\<close>

theorem degenerate_road_is_skipped:
  assumes "road_geometry r = LineString coords" and "length coords < 2"
  shows "create_road_network_graph (pre @ (rid, r) # post) junctions
           = create_road_network_graph (pre @ post) junctions
       \<and> printed_output report (pre @ (rid, r) # post) junctions
           = printed_output report (pre @ post) junctions
       \<and> (junctions \<noteq> [] \<longrightarrow>
            (\<exists>g. create_road_network_graph (pre @ (rid, r) # post) junctions = Inr g))"
proof -
  have same: "create_road_network_graph (pre @ (rid, r) # post) junctions
           = create_road_network_graph (pre @ post) junctions"
    by (rule skip_degenerate[OF assms])
  have "\<exists>g. create_road_network_graph (pre @ (rid, r) # post) junctions = Inr g"
    if "junctions \<noteq> []"
    using that by (cases junctions) (simp_all add: create_road_network_graph_fold)
  with same show ?thesis by (simp add: printed_output_def)
qed

theorem degenerate_road_is_skipped_witness:
  "road_geometry degenerate_road = LineString [(1, 1)]
   \<and> create_road_network_graph [(1, two_way_road), (7, degenerate_road)] example_junctions
       = Inr two_way_graph
   \<and> create_road_network_graph [(1, two_way_road)] example_junctions = Inr two_way_graph"
proof -
  have geo: "road_geometry degenerate_road = LineString [(1, 1)]"
    by (simp add: degenerate_road_def)
  have short: "length [(1::real, 1::real)] < 2" by simp
  from degenerate_road_is_skipped [OF geo short, of "[(1, two_way_road)]" 7 "[]" example_junctions]
  have "create_road_network_graph [(1, two_way_road), (7, degenerate_road)] example_junctions
          = create_road_network_graph [(1, two_way_road)] example_junctions"
    by simp
  with geo build_two_way_road show ?thesis by simp
qed

text \<open>The claim as stated fails in its first part: for an input whose only road is
  degenerate the build returns the graph of the junctions and prints its four usual
  lines; no error is raised and nothing is reported about the road.\<close>

theorem degenerate_road_not_reported_counterexample:
  "road_geometry degenerate_road = LineString [(1, 1)]
   \<and> create_road_network_graph [(7, degenerate_road)] single_junction = Inr single_node_graph
   \<and> printed_output no_connectivity_report [(7, degenerate_road)] single_junction
       = [''Adding junctions to graph...'', ''Creating spatial index for junctions...'',
          ''Processing roads...'', ''Created graph with 1 nodes and 0 edges'']"
proof -
  have b: "create_road_network_graph [(7, degenerate_road)] single_junction = Inr single_node_graph"
    by (simp add: build_eval)
  have g: "road_geometry degenerate_road = LineString [(1, 1)]"
    by (simp add: degenerate_road_def)
  have "printed_output no_connectivity_report [(7, degenerate_road)] single_junction
       = [''Adding junctions to graph...'', ''Creating spatial index for junctions...'',
          ''Processing roads...'', ''Created graph with 1 nodes and 0 edges'']"
    by (simp add: printed_output_def b no_connectivity_report_def single_node_graph_def
          str_nat.simps digit_char_def)
  with b g show ?thesis by simp
qed

section \<open>Properties of runs\<close>

subsection \<open>Segments, polylines and the nearest node\<close>















subsection \<open>What the methods of a vehicle keep true\<close>









subsection \<open>What the events of a run keep true\<close>













subsection \<open>Evaluating the example runs\<close>
















subsection \<open>Where a vehicle is, by status\<close>




end
